theory Spec2Isabelle
  imports Main "HOL-Library.Sublist"
begin

section \<open>ualBot: a Telegram bot relaying messages to a generative model\<close>

text \<open>
  The repository holds two variants of one bot: \<^verbatim>\<open>src/bot.js\<close>, which polls the chat
  platform, and \<^verbatim>\<open>src/unnamed/part_000\<close>, which is driven by a webhook. Each registers
  callbacks on the transport library's bot object. The callbacks are modelled as functions
  on an explicit world (the two store collections, the messages handed to
  \<^verbatim>\<open>bot.sendMessage\<close>, the error log and the external requests issued), with the answers
  of the external services given by an environment. Definitions for the webhook variant
  carry the suffix \<open>_wh\<close>.

  JavaScript strings are modelled as \<^typ>\<open>string\<close>, holding the UTF-8 bytes of the text.
\<close>

subsection \<open>JavaScript string and array operations used by the handlers\<close>

text \<open>\<^verbatim>\<open>s.startsWith(n)\<close> and \<^verbatim>\<open>s.endsWith(n)\<close>: compare the slice of the length of \<open>n\<close>
  at the start, respectively the end, of \<open>s\<close>; false when \<open>n\<close> is longer than \<open>s\<close>.\<close>

definition startsWith :: "string \<Rightarrow> string \<Rightarrow> bool" where
  "startsWith s n = (length n \<le> length s \<and> take (length n) s = n)"

definition endsWith :: "string \<Rightarrow> string \<Rightarrow> bool" where
  "endsWith s n = (length n \<le> length s \<and> drop (length s - length n) s = n)"

text \<open>\<^verbatim>\<open>xs.slice(b, e)\<close> for non-negative \<open>b\<close> and \<open>e\<close>: the elements at the indices
  from \<open>b\<close> up to, not including, \<open>min e (length xs)\<close>.\<close>

definition slice :: "nat \<Rightarrow> nat \<Rightarrow> 'a list \<Rightarrow> 'a list" where
  "slice b e xs = take (min e (length xs) - b) (drop b xs)"

text \<open>\<^verbatim>\<open>xs.join(sep)\<close>: the elements in order, \<open>sep\<close> between consecutive ones.\<close>

fun join :: "string \<Rightarrow> string list \<Rightarrow> string" where
  "join sep [] = []"
| "join sep [x] = x"
| "join sep (x # y # ys) = x @ sep @ join sep (y # ys)"

text \<open>A value interpolated into a template literal: \<^verbatim>\<open>undefined\<close> prints as its name.\<close>

definition interpolate :: "string option \<Rightarrow> string" where
  "interpolate v = (case v of None \<Rightarrow> ''undefined'' | Some s \<Rightarrow> s)"

text \<open>Truthiness of an optional string: \<^verbatim>\<open>undefined\<close> and the empty string are falsy.\<close>

definition truthy :: "string option \<Rightarrow> bool" where
  "truthy v = (case v of None \<Rightarrow> False | Some s \<Rightarrow> s \<noteq> [])"

subsection \<open>Image handler: MIME type of the resolved file path\<close>

text \<open>\<^verbatim>\<open>src/bot.js\<close>, lines 163 to 165.\<close>

definition mimeType :: "string \<Rightarrow> string" where
  "mimeType file_path =
     (if endsWith file_path ''.png'' then ''image/png''
      else if endsWith file_path ''.webp'' then ''image/webp''
      else ''image/jpeg'')"

text \<open>\<^verbatim>\<open>src/unnamed/part_000\<close>, line 146.\<close>

definition mimeType_wh :: "string \<Rightarrow> string" where
  "mimeType_wh file_path =
     (if endsWith file_path ''.png'' then ''image/png'' else ''image/jpeg'')"

subsection \<open>Search handler: rendering the results\<close>

record item =
  title :: string
  link :: string

text \<open>The arrow function \<^verbatim>\<open>item => `${item.title}\n${item.link}`\<close>.\<close>

definition render_item :: "item \<Rightarrow> string" where
  "render_item i = title i @ ''\<newline>'' @ link i"

text \<open>\<^verbatim>\<open>items.slice(0, 3).map(...).join('\n\n')\<close>, the same expression in both variants
  (\<^verbatim>\<open>src/bot.js\<close> line 132, \<^verbatim>\<open>src/unnamed/part_000\<close> lines 118 to 120).\<close>

definition searchResults :: "item list \<Rightarrow> string" where
  "searchResults items = join ''\<newline>\<newline>'' (map render_item (slice 0 3 items))"

subsection \<open>Documents of the store\<close>

text \<open>The two mongoose schemas, \<^verbatim>\<open>userSchema\<close> and \<^verbatim>\<open>chatSchema\<close>. Both have a
  \<^verbatim>\<open>chat_id\<close>; a field that was never set is \<open>None\<close>.\<close>

record document =
  chat_id :: int

record user = document +
  first_name :: "string option"
  username :: "string option"
  phone_number :: "string option"

record chat = document +
  user_input :: "string option"
  bot_response :: string
  timestamp :: nat

subsection \<open>Inbound and outbound messages\<close>

text \<open>The fields of the transport's message object that the callbacks read:
  \<^verbatim>\<open>msg.chat.id\<close>, \<^verbatim>\<open>msg.chat.first_name\<close>, \<^verbatim>\<open>msg.chat.username\<close>, \<^verbatim>\<open>msg.text\<close>,
  \<^verbatim>\<open>msg.contact.phone_number\<close> (\<open>None\<close> when there is no \<^verbatim>\<open>msg.contact\<close>) and the
  \<^verbatim>\<open>file_id\<close>s of \<^verbatim>\<open>msg.photo\<close> (\<open>None\<close> when there is no \<^verbatim>\<open>msg.photo\<close>).\<close>

record message =
  msg_chat_id :: int
  msg_first_name :: "string option"
  msg_username :: "string option"
  msg_text :: "string option"
  msg_contact :: "string option"
  msg_photo :: "string list option"

record button =
  button_text :: string
  request_contact :: bool

record reply_markup =
  keyboard :: "button list list"
  one_time_keyboard :: bool

text \<open>One call \<^verbatim>\<open>bot.sendMessage(chatId, text, options)\<close>.\<close>

record outbound =
  recipient :: int
  body :: string
  markup :: "reply_markup option"

subsection \<open>External services\<close>

datatype error = StoreError | TransportError | SearchError | GenerationError | TypeError

text \<open>A request to the generative model: the model's name and the parts of the prompt.\<close>

datatype part = Text "string option" | InlineData string string

record gen_request =
  model :: string
  parts :: "part list"

text \<open>The object that \<^verbatim>\<open>generateContent\<close> resolves to has one property,
  \<^verbatim>\<open>response\<close>, which \<^verbatim>\<open>src/bot.js\<close> reads at lines 105, 138 and 185:
  \<^verbatim>\<open>result.response.text()\<close> returns the completion, a string, or throws.\<close>

record gen_result =
  response_text :: "error + string"

text \<open>\<^verbatim>\<open>result.candidates?.[0]?.content?.parts?.[0]?.text\<close>, as \<^verbatim>\<open>src/unnamed/part_000\<close>
  reads the result at lines 98, 127 and 159: the object has no property
  \<^verbatim>\<open>candidates\<close>, so the optional chain yields \<^verbatim>\<open>undefined\<close>.\<close>

definition candidate_text :: "gen_result \<Rightarrow> string option" where
  "candidate_text result = None"

text \<open>The requests a callback issues, in the order issued.\<close>

datatype request =
    FindOne int
  | SaveUser user
  | UpdateOne int string
  | SaveChat chat
  | Search string
  | Generate gen_request
  | GetFile string
  | Download string

text \<open>The environment of one update: the configuration, the clock, and how each external
  request is answered. A store write or lookup answers \<open>Some err\<close> when its promise
  rejects. \<open>answer_search\<close> gives \<^verbatim>\<open>response.data.items\<close>, \<open>None\<close> when the field is
  absent; \<open>answer_getFile\<close> gives \<^verbatim>\<open>file.file_path\<close>; \<open>answer_download\<close> the bytes.\<close>

record env =
  TELEGRAM_BOT_TOKEN :: string
  now :: nat
  answer_findOne :: "int \<Rightarrow> error option"
  answer_save_user :: "user \<Rightarrow> error option"
  answer_updateOne :: "int \<Rightarrow> string \<Rightarrow> error option"
  answer_save_chat :: "chat \<Rightarrow> error option"
  answer_search :: "string \<Rightarrow> error + item list option"
  answer_generate :: "gen_request \<Rightarrow> error + gen_result"
  answer_getFile :: "string \<Rightarrow> error + string option"
  answer_download :: "string \<Rightarrow> error + string"

record world =
  users :: "user list"
  chats :: "chat list"
  sent :: "outbound list"
  logged :: "error list"
  requests :: "request list"

definition issue :: "request \<Rightarrow> world \<Rightarrow> world" where
  "issue r w = w\<lparr>requests := requests w @ [r]\<rparr>"

definition sendMessage :: "int \<Rightarrow> string \<Rightarrow> reply_markup option \<Rightarrow> world \<Rightarrow> world" where
  "sendMessage chatId txt opts w =
     w\<lparr>sent := sent w @ [\<lparr>recipient = chatId, body = txt, markup = opts\<rparr>]\<rparr>"

definition console_error :: "error \<Rightarrow> world \<Rightarrow> world" where
  "console_error err w = w\<lparr>logged := logged w @ [err]\<rparr>"

text \<open>\<^verbatim>\<open>User.findOne({ chat_id: chatId })\<close>: the first matching document, if any.\<close>

definition User_findOne :: "env \<Rightarrow> int \<Rightarrow> world \<Rightarrow> (error + user option) \<times> world" where
  "User_findOne e chatId w =
     (case answer_findOne e chatId of
        Some err \<Rightarrow> (Inl err, issue (FindOne chatId) w)
      | None \<Rightarrow> (Inr (find (\<lambda>u. chat_id u = chatId) (users w)), issue (FindOne chatId) w))"

text \<open>\<^verbatim>\<open>user.save()\<close> of a new document: appended to the collection.\<close>

definition User_save :: "env \<Rightarrow> user \<Rightarrow> world \<Rightarrow> error option \<times> world" where
  "User_save e u w =
     (case answer_save_user e u of
        Some err \<Rightarrow> (Some err, issue (SaveUser u) w)
      | None \<Rightarrow> (None, (issue (SaveUser u) w)\<lparr>users := users w @ [u]\<rparr>))"

text \<open>\<^verbatim>\<open>User.updateOne({ chat_id: chatId }, { phone_number: phoneNumber })\<close>: sets the field
  of the first matching document; without the \<^verbatim>\<open>upsert\<close> option nothing is inserted when
  no document matches.\<close>

fun set_phone_number :: "int \<Rightarrow> string \<Rightarrow> user list \<Rightarrow> user list" where
  "set_phone_number chatId p [] = []"
| "set_phone_number chatId p (u # us) =
     (if chat_id u = chatId then u\<lparr>phone_number := Some p\<rparr> # us
      else u # set_phone_number chatId p us)"

definition User_updateOne :: "env \<Rightarrow> int \<Rightarrow> string \<Rightarrow> world \<Rightarrow> error option \<times> world" where
  "User_updateOne e chatId p w =
     (case answer_updateOne e chatId p of
        Some err \<Rightarrow> (Some err, issue (UpdateOne chatId p) w)
      | None \<Rightarrow>
          (None, (issue (UpdateOne chatId p) w)\<lparr>users := set_phone_number chatId p (users w)\<rparr>))"

text \<open>\<^verbatim>\<open>new Chat({ chat_id, user_input, bot_response }).save()\<close>: the timestamp defaults
  to the current time.\<close>

definition Chat_save :: "env \<Rightarrow> int \<Rightarrow> string option \<Rightarrow> string \<Rightarrow> world \<Rightarrow> error option \<times> world" where
  "Chat_save e chatId input response w =
     (let c = \<lparr>chat_id = chatId, user_input = input, bot_response = response, timestamp = now e\<rparr>
      in case answer_save_chat e c of
           Some err \<Rightarrow> (Some err, issue (SaveChat c) w)
         | None \<Rightarrow> (None, (issue (SaveChat c) w)\<lparr>chats := chats w @ [c]\<rparr>))"

definition generateContent :: "env \<Rightarrow> gen_request \<Rightarrow> world \<Rightarrow> (error + gen_result) \<times> world" where
  "generateContent e r w = (answer_generate e r, issue (Generate r) w)"

text \<open>The request to the search service; the key and the engine id are fixed configuration.\<close>

definition customsearch :: "env \<Rightarrow> string \<Rightarrow> world \<Rightarrow> (error + item list option) \<times> world" where
  "customsearch e q w = (answer_search e q, issue (Search q) w)"

definition getFile :: "env \<Rightarrow> string \<Rightarrow> world \<Rightarrow> (error + string option) \<times> world" where
  "getFile e fileId w = (answer_getFile e fileId, issue (GetFile fileId) w)"

definition download :: "env \<Rightarrow> string \<Rightarrow> world \<Rightarrow> (error + string) \<times> world" where
  "download e url w = (answer_download e url, issue (Download url) w)"

text \<open>\<^verbatim>\<open>Buffer.from(data).toString("base64")\<close>.\<close>

definition base64_digit :: "nat \<Rightarrow> char" where
  "base64_digit n =
     ''ABCDEFGHIJKLMNOPQRSTUVWXYZabcdefghijklmnopqrstuvwxyz0123456789+/'' ! n"

fun base64 :: "string \<Rightarrow> string" where
  "base64 [] = []"
| "base64 [a] =
     (let x = (of_char a :: nat)
      in [base64_digit (x div 4), base64_digit ((x mod 4) * 16), CHR ''='', CHR ''=''])"
| "base64 [a, b] =
     (let x = (of_char a :: nat); y = (of_char b :: nat)
      in [base64_digit (x div 4), base64_digit ((x mod 4) * 16 + y div 16),
          base64_digit ((y mod 16) * 4), CHR ''=''])"
| "base64 (a # b # c # rest) =
     (let x = (of_char a :: nat); y = (of_char b :: nat); z = (of_char c :: nat)
      in [base64_digit (x div 4), base64_digit ((x mod 4) * 16 + y div 16),
          base64_digit ((y mod 16) * 4 + z div 64), base64_digit (z mod 64)] @ base64 rest)"

text \<open>\<^verbatim>\<open>v || d\<close> on an optional string.\<close>

definition or_default :: "string option \<Rightarrow> string \<Rightarrow> string" where
  "or_default v d = (case v of None \<Rightarrow> d | Some s \<Rightarrow> if s = [] then d else s)"

subsection \<open>The callbacks of the polling variant\<close>

text \<open>A callback returns \<open>Some err\<close> when its promise rejects (an error thrown outside
  a \<^verbatim>\<open>try\<close> block), and the world it leaves. The text of a \<^verbatim>\<open>try\<close> block is a
  function of its own, named \<open>_try\<close>, returning the error that reaches \<^verbatim>\<open>catch\<close>.\<close>

definition share_phone_keyboard :: reply_markup where
  "share_phone_keyboard =
     \<lparr>keyboard = [[\<lparr>button_text = ''Share Phone Number'', request_contact = True\<rparr>]],
      one_time_keyboard = True\<rparr>"

definition hide_keyboard :: reply_markup where
  "hide_keyboard =
     \<lparr>keyboard = [[\<lparr>button_text = [], request_contact = False\<rparr>]],
      one_time_keyboard = False\<rparr>"

text \<open>\<^verbatim>\<open>bot.onText(/\/start/, ...)\<close>, \<^verbatim>\<open>src/bot.js\<close> lines 49 to 68.\<close>

definition on_start :: "env \<Rightarrow> message \<Rightarrow> world \<Rightarrow> error option \<times> world" where
  "on_start e msg w =
     (let chatId = msg_chat_id msg; firstName = msg_first_name msg; userName = msg_username msg
      in case User_findOne e chatId w of
           (Inl err, w1) \<Rightarrow> (Some err, w1)
         | (Inr None, w1) \<Rightarrow>
             (case User_save e \<lparr>chat_id = chatId, first_name = firstName, username = userName,
                               phone_number = None\<rparr> w1 of
                (Some err, w2) \<Rightarrow> (Some err, w2)
              | (None, w2) \<Rightarrow>
                  (None,
                   sendMessage chatId
                     ''To continue chatting, please share your Phone Number by clicking the button next to the typing area.''
                     (Some share_phone_keyboard)
                     (sendMessage chatId
                        (''Welcome, '' @ interpolate firstName @
                         ''! You can ask questions to this bot. Feel free to drop any questions here'')
                        None w2)))
         | (Inr (Some u), w1) \<Rightarrow>
             (None,
              sendMessage chatId
                (''Welcome back '' @ interpolate firstName @
                 ''! Please ask a question. I will be happy to assist you!!'')
                None w1))"

text \<open>\<^verbatim>\<open>bot.on("contact", ...)\<close>, \<^verbatim>\<open>src/bot.js\<close> lines 71 to 82. Reading
  \<^verbatim>\<open>msg.contact.phone_number\<close> of a message without contact throws.\<close>

definition on_contact :: "env \<Rightarrow> message \<Rightarrow> world \<Rightarrow> error option \<times> world" where
  "on_contact e msg w =
     (let chatId = msg_chat_id msg
      in case msg_contact msg of
           None \<Rightarrow> (Some TypeError, w)
         | Some phoneNumber \<Rightarrow>
             (case User_updateOne e chatId phoneNumber w of
                (Some err, w1) \<Rightarrow> (Some err, w1)
              | (None, w1) \<Rightarrow>
                  (None,
                   sendMessage chatId
                     ''Phone number saved successfully! Now you can start asking questions.''
                     (Some hide_keyboard) w1)))"

text \<open>\<^verbatim>\<open>bot.onText(/\/help/, ...)\<close>, \<^verbatim>\<open>src/bot.js\<close> lines 85 to 88.\<close>

definition on_help :: "env \<Rightarrow> message \<Rightarrow> world \<Rightarrow> error option \<times> world" where
  "on_help e msg w =
     (None,
      sendMessage (msg_chat_id msg)
        (''This bot can perform the following tasks: \<newline> 1. Enter /start to start the bot. '' @
         ''\<newline> 2. Type any question to ask. \<newline> 3. Send an image for analysis. '' @
         ''\<newline> 4. Before your questions, if you include /websearch you will get top 3 results from the web and their summary. '')
        None w)"

text \<open>\<^verbatim>\<open>text && text.startsWith(n)\<close>.\<close>

definition text_startsWith :: "string option \<Rightarrow> string \<Rightarrow> bool" where
  "text_startsWith txt n = (case txt of None \<Rightarrow> False | Some t \<Rightarrow> t \<noteq> [] \<and> startsWith t n)"

text \<open>\<^verbatim>\<open>bot.on("message", ...)\<close>, \<^verbatim>\<open>src/bot.js\<close> lines 91 to 115.\<close>

definition on_message_try :: "env \<Rightarrow> int \<Rightarrow> string option \<Rightarrow> world \<Rightarrow> error option \<times> world" where
  "on_message_try e chatId txt w =
     (case generateContent e \<lparr>model = ''gemini-pro'', parts = [Text txt]\<rparr> w of
        (Inl err, w1) \<Rightarrow> (Some err, w1)
      | (Inr result, w1) \<Rightarrow>
          (case response_text result of
             Inl err \<Rightarrow> (Some err, w1)
           | Inr response \<Rightarrow>
               (case Chat_save e chatId txt response w1 of
                  (Some err, w2) \<Rightarrow> (Some err, w2)
                | (None, w2) \<Rightarrow> (None, sendMessage chatId response None w2))))"

definition on_message :: "env \<Rightarrow> message \<Rightarrow> world \<Rightarrow> error option \<times> world" where
  "on_message e msg w =
     (let chatId = msg_chat_id msg; txt = msg_text msg
      in if text_startsWith txt ''/start'' then (None, w)
         else if text_startsWith txt ''/websearch'' then (None, w)
         else if \<not> truthy txt then (None, w)
         else (case on_message_try e chatId txt w of
                 (Some err, w1) \<Rightarrow>
                   (None,
                    sendMessage chatId
                      ''Sorry, I couldn't process your request. Please try again later.''
                      None (console_error err w1))
               | (None, w1) \<Rightarrow> (None, w1)))"

text \<open>\<^verbatim>\<open>bot.onText(/\/websearch (.+)/, ...)\<close>, \<^verbatim>\<open>src/bot.js\<close> lines 119 to 149; \<open>query\<close>
  is \<^verbatim>\<open>match[1]\<close>. Reading \<^verbatim>\<open>response.data.items.slice\<close> throws when the response has no
  \<^verbatim>\<open>items\<close>. The two marks are the bytes that precede the headings in the source file.\<close>

definition results_mark :: string where
  "results_mark = [CHR 0xC3, CHR 0xB0, CHR 0xC5, CHR 0xB8, CHR 0xE2, CHR 0x80, CHR 0x9D]"

definition summary_mark :: string where
  "summary_mark = [CHR 0xC3, CHR 0xB0, CHR 0xC5, CHR 0xB8, CHR 0xE2, CHR 0x80, CHR 0x9C]"

definition on_websearch_try :: "env \<Rightarrow> int \<Rightarrow> string \<Rightarrow> world \<Rightarrow> error option \<times> world" where
  "on_websearch_try e chatId query w =
     (case customsearch e query w of
        (Inl err, w1) \<Rightarrow> (Some err, w1)
      | (Inr None, w1) \<Rightarrow> (Some TypeError, w1)
      | (Inr (Some items), w1) \<Rightarrow>
          (let results = searchResults items;
               prompt = ''Summarize the following search results:\<newline>\<newline>'' @ results
           in case generateContent e \<lparr>model = ''gemini-pro'', parts = [Text (Some prompt)]\<rparr> w1 of
                (Inl err, w2) \<Rightarrow> (Some err, w2)
              | (Inr result, w2) \<Rightarrow>
                  (case response_text result of
                     Inl err \<Rightarrow> (Some err, w2)
                   | Inr summary \<Rightarrow>
                       (case Chat_save e chatId (Some query) summary w2 of
                          (Some err, w3) \<Rightarrow> (Some err, w3)
                        | (None, w3) \<Rightarrow>
                            (None,
                             sendMessage chatId
                               (results_mark @ '' Top search results:\<newline>\<newline>'' @ results @
                                ''\<newline>\<newline>'' @ summary_mark @ '' Summary:\<newline>\<newline>'' @ summary)
                               None w3)))))"

definition on_websearch :: "env \<Rightarrow> message \<Rightarrow> string \<Rightarrow> world \<Rightarrow> error option \<times> world" where
  "on_websearch e msg query w =
     (let chatId = msg_chat_id msg
      in case on_websearch_try e chatId query w of
           (Some err, w1) \<Rightarrow>
             (None, sendMessage chatId ''Error fetching search results.'' None (console_error err w1))
         | (None, w1) \<Rightarrow> (None, w1))"

text \<open>\<^verbatim>\<open>bot.on("photo", ...)\<close>, \<^verbatim>\<open>src/bot.js\<close> lines 153 to 194. The file id is read
  before the \<^verbatim>\<open>try\<close> block: \<^verbatim>\<open>msg.photo[msg.photo.length - 1].file_id\<close> throws when
  there is no last element. Inside the block, \<^verbatim>\<open>file.file_path.endsWith\<close> throws when the
  resolved file has no path.\<close>

definition picture_mark :: string where
  "picture_mark =
     [CHR 0xC3, CHR 0xB0, CHR 0xC5, CHR 0xB8, CHR 0xE2, CHR 0x80, CHR 0x93, CHR 0xC2, CHR 0xBC]"

definition on_photo_try :: "env \<Rightarrow> int \<Rightarrow> string \<Rightarrow> world \<Rightarrow> error option \<times> world" where
  "on_photo_try e chatId fileId w =
     (case getFile e fileId w of
        (Inl err, w1) \<Rightarrow> (Some err, w1)
      | (Inr file_path, w1) \<Rightarrow>
          (let fileUrl = ''https://api.telegram.org/file/bot'' @ TELEGRAM_BOT_TOKEN e @ ''/'' @
                         interpolate file_path
           in case file_path of
                None \<Rightarrow> (Some TypeError, w1)
              | Some p \<Rightarrow>
                  (case download e fileUrl w1 of
                     (Inl err, w2) \<Rightarrow> (Some err, w2)
                   | (Inr bytes, w2) \<Rightarrow>
                       (case generateContent e
                               \<lparr>model = ''gemini-1.5-pro'',
                                parts = [InlineData (base64 bytes) (mimeType p),
                                         Text (Some ''Describe this image in brief.'')]\<rparr> w2 of
                          (Inl err, w3) \<Rightarrow> (Some err, w3)
                        | (Inr result, w3) \<Rightarrow>
                            (case response_text result of
                               Inl err \<Rightarrow> (Some err, w3)
                             | Inr description \<Rightarrow>
                                 (case Chat_save e chatId (Some ''image'') description w3 of
                                    (Some err, w4) \<Rightarrow> (Some err, w4)
                                  | (None, w4) \<Rightarrow>
                                      (None,
                                       sendMessage chatId
                                         (picture_mark @ '' Image Analysis: '' @ description)
                                         None w4)))))))"

definition on_photo :: "env \<Rightarrow> message \<Rightarrow> world \<Rightarrow> error option \<times> world" where
  "on_photo e msg w =
     (let chatId = msg_chat_id msg
      in case msg_photo msg of
           None \<Rightarrow> (Some TypeError, w)
         | Some sizes \<Rightarrow>
             (if sizes = [] then (Some TypeError, w)
              else (case on_photo_try e chatId (last sizes) w of
                      (Some err, w1) \<Rightarrow>
                        (None,
                         sendMessage chatId ''Error analyzing the image.'' None (console_error err w1))
                    | (None, w1) \<Rightarrow> (None, w1))))"

subsection \<open>The callbacks of the webhook variant\<close>

text \<open>\<^verbatim>\<open>bot.onText(/\/start/, ...)\<close>, \<^verbatim>\<open>src/unnamed/part_000\<close> lines 57 to 76.\<close>

definition on_start_wh :: "env \<Rightarrow> message \<Rightarrow> world \<Rightarrow> error option \<times> world" where
  "on_start_wh e msg w =
     (let chatId = msg_chat_id msg; firstName = msg_first_name msg; userName = msg_username msg
      in case User_findOne e chatId w of
           (Inl err, w1) \<Rightarrow> (Some err, w1)
         | (Inr None, w1) \<Rightarrow>
             (case User_save e \<lparr>chat_id = chatId, first_name = firstName, username = userName,
                               phone_number = None\<rparr> w1 of
                (Some err, w2) \<Rightarrow> (Some err, w2)
              | (None, w2) \<Rightarrow>
                  (None,
                   sendMessage chatId
                     ''Please share your phone number by clicking the button below.''
                     (Some share_phone_keyboard)
                     (sendMessage chatId
                        (''Welcome, '' @ interpolate firstName @ ''! You can ask me anything.'')
                        None w2)))
         | (Inr (Some u), w1) \<Rightarrow>
             (None,
              sendMessage chatId
                (''Welcome back, '' @ interpolate firstName @ ''! Ask me anything.'') None w1))"

text \<open>\<^verbatim>\<open>bot.on("contact", ...)\<close>, \<^verbatim>\<open>src/unnamed/part_000\<close> lines 79 to 85.\<close>

definition on_contact_wh :: "env \<Rightarrow> message \<Rightarrow> world \<Rightarrow> error option \<times> world" where
  "on_contact_wh e msg w =
     (let chatId = msg_chat_id msg
      in case msg_contact msg of
           None \<Rightarrow> (Some TypeError, w)
         | Some phoneNumber \<Rightarrow>
             (case User_updateOne e chatId phoneNumber w of
                (Some err, w1) \<Rightarrow> (Some err, w1)
              | (None, w1) \<Rightarrow>
                  (None,
                   sendMessage chatId ''Phone number saved! You can now start chatting.'' None w1)))"

text \<open>\<^verbatim>\<open>bot.on("message", ...)\<close>, \<^verbatim>\<open>src/unnamed/part_000\<close> lines 88 to 106: no test of
  the text precedes the \<^verbatim>\<open>try\<close> block.\<close>

definition on_message_try_wh :: "env \<Rightarrow> int \<Rightarrow> string option \<Rightarrow> world \<Rightarrow> error option \<times> world" where
  "on_message_try_wh e chatId txt w =
     (case generateContent e \<lparr>model = ''gemini-1.5-pro'', parts = [Text txt]\<rparr> w of
        (Inl err, w1) \<Rightarrow> (Some err, w1)
      | (Inr result, w1) \<Rightarrow>
          (let response = or_default (candidate_text result)
                            ''Sorry, I couldn't understand that.''
           in case Chat_save e chatId txt response w1 of
                (Some err, w2) \<Rightarrow> (Some err, w2)
              | (None, w2) \<Rightarrow> (None, sendMessage chatId response None w2)))"

definition on_message_wh :: "env \<Rightarrow> message \<Rightarrow> world \<Rightarrow> error option \<times> world" where
  "on_message_wh e msg w =
     (let chatId = msg_chat_id msg; txt = msg_text msg
      in case on_message_try_wh e chatId txt w of
           (Some err, w1) \<Rightarrow>
             (None,
              sendMessage chatId ''Sorry, I couldn't process your request.''
                None (console_error err w1))
         | (None, w1) \<Rightarrow> (None, w1))"

text \<open>\<^verbatim>\<open>bot.onText(/\/websearch (.+)/, ...)\<close>, \<^verbatim>\<open>src/unnamed/part_000\<close> lines 109 to 135.\<close>

definition results_mark_wh :: string where
  "results_mark_wh = [CHR 0xF0, CHR 0x9F, CHR 0x94, CHR 0x8D]"

definition summary_mark_wh :: string where
  "summary_mark_wh = [CHR 0xF0, CHR 0x9F, CHR 0x93, CHR 0x9D]"

definition on_websearch_try_wh :: "env \<Rightarrow> int \<Rightarrow> string \<Rightarrow> world \<Rightarrow> error option \<times> world" where
  "on_websearch_try_wh e chatId query w =
     (case customsearch e query w of
        (Inl err, w1) \<Rightarrow> (Some err, w1)
      | (Inr None, w1) \<Rightarrow> (Some TypeError, w1)
      | (Inr (Some items), w1) \<Rightarrow>
          (let results = searchResults items
           in case generateContent e
                     \<lparr>model = ''gemini-1.5-pro'',
                      parts = [Text (Some (''Summarize this: '' @ results))]\<rparr> w1 of
                (Inl err, w2) \<Rightarrow> (Some err, w2)
              | (Inr result, w2) \<Rightarrow>
                  (let summary = or_default (candidate_text result) ''No summary available.''
                   in case Chat_save e chatId (Some query) summary w2 of
                        (Some err, w3) \<Rightarrow> (Some err, w3)
                      | (None, w3) \<Rightarrow>
                          (None,
                           sendMessage chatId
                             (results_mark_wh @ '' Search Results:\<newline>\<newline>'' @ results @
                              ''\<newline>\<newline>'' @ summary_mark_wh @ '' Summary:\<newline>'' @ summary)
                             None w3))))"

definition on_websearch_wh :: "env \<Rightarrow> message \<Rightarrow> string \<Rightarrow> world \<Rightarrow> error option \<times> world" where
  "on_websearch_wh e msg query w =
     (let chatId = msg_chat_id msg
      in case on_websearch_try_wh e chatId query w of
           (Some err, w1) \<Rightarrow>
             (None, sendMessage chatId ''Error fetching search results.'' None (console_error err w1))
         | (None, w1) \<Rightarrow> (None, w1))"

text \<open>\<^verbatim>\<open>bot.on("photo", ...)\<close>, \<^verbatim>\<open>src/unnamed/part_000\<close> lines 138 to 167.\<close>

definition picture_mark_wh :: string where
  "picture_mark_wh = [CHR 0xF0, CHR 0x9F, CHR 0x96, CHR 0xBC]"

definition on_photo_try_wh :: "env \<Rightarrow> int \<Rightarrow> string \<Rightarrow> world \<Rightarrow> error option \<times> world" where
  "on_photo_try_wh e chatId fileId w =
     (case getFile e fileId w of
        (Inl err, w1) \<Rightarrow> (Some err, w1)
      | (Inr file_path, w1) \<Rightarrow>
          (let fileUrl = ''https://api.telegram.org/file/bot'' @ TELEGRAM_BOT_TOKEN e @ ''/'' @
                         interpolate file_path
           in case file_path of
                None \<Rightarrow> (Some TypeError, w1)
              | Some p \<Rightarrow>
                  (case download e fileUrl w1 of
                     (Inl err, w2) \<Rightarrow> (Some err, w2)
                   | (Inr bytes, w2) \<Rightarrow>
                       (case generateContent e
                               \<lparr>model = ''gemini-1.5-pro'',
                                parts = [InlineData (base64 bytes) (mimeType_wh p),
                                         Text (Some ''Describe this image briefly.'')]\<rparr> w2 of
                          (Inl err, w3) \<Rightarrow> (Some err, w3)
                        | (Inr result, w3) \<Rightarrow>
                            (let description =
                                   or_default (candidate_text result) ''No description available.''
                             in case Chat_save e chatId (Some ''image'') description w3 of
                                  (Some err, w4) \<Rightarrow> (Some err, w4)
                                | (None, w4) \<Rightarrow>
                                    (None,
                                     sendMessage chatId
                                       (picture_mark_wh @ '' Image Analysis: '' @ description)
                                       None w4))))))"

definition on_photo_wh :: "env \<Rightarrow> message \<Rightarrow> world \<Rightarrow> error option \<times> world" where
  "on_photo_wh e msg w =
     (let chatId = msg_chat_id msg
      in case msg_photo msg of
           None \<Rightarrow> (Some TypeError, w)
         | Some sizes \<Rightarrow>
             (if sizes = [] then (Some TypeError, w)
              else (case on_photo_try_wh e chatId (last sizes) w of
                      (Some err, w1) \<Rightarrow>
                        (None,
                         sendMessage chatId ''Error analyzing the image.'' None (console_error err w1))
                    | (None, w1) \<Rightarrow> (None, w1))))"

subsection \<open>Delivery of an update to the callbacks\<close>

text \<open>
  The callbacks are registered with \<^verbatim>\<open>bot.on(event, ...)\<close> and \<^verbatim>\<open>bot.onText(regexp, ...)\<close>
  of the transport library (node-telegram-bot-api, a dependency of the repository). The
  library's \<^verbatim>\<open>processUpdate\<close>, which \<^verbatim>\<open>src/unnamed/part_000\<close> calls at line 24 and the
  polling loop calls for \<^verbatim>\<open>src/bot.js\<close>, delivers a message as follows: it emits
  \<^verbatim>\<open>"message"\<close>; it emits the event named after the first kind of content the message
  has (\<^verbatim>\<open>"text"\<close> comes before \<^verbatim>\<open>"contact"\<close>, which comes before \<^verbatim>\<open>"photo"\<close>); and, when
  the text is truthy, it calls each \<^verbatim>\<open>onText\<close> callback, in the order registered, whose
  regular expression matches the text, passing the match. The tests at lines 95 to 97 of
  \<^verbatim>\<open>src/bot.js\<close> rely on this: the \<^verbatim>\<open>"message"\<close> callback receives commands and
  text-less messages too.
\<close>

text \<open>A regular expression of literal characters, such as \<^verbatim>\<open>/\/start/\<close>: it is not
  anchored, so the search tries each start position from the left.\<close>

fun matches_literal :: "string \<Rightarrow> string \<Rightarrow> bool" where
  "matches_literal pat [] = (pat = [])"
| "matches_literal pat (c # cs) = (startsWith (c # cs) pat \<or> matches_literal pat cs)"

text \<open>The text begins with a line terminator, which \<^verbatim>\<open>.\<close> does not match: LF, CR,
  U+2028 or U+2029.\<close>

definition line_terminator :: "string \<Rightarrow> bool" where
  "line_terminator s =
     (startsWith s [CHR 0x0A] \<or> startsWith s [CHR 0x0D] \<or>
      startsWith s [CHR 0xE2, CHR 0x80, CHR 0xA8] \<or> startsWith s [CHR 0xE2, CHR 0x80, CHR 0xA9])"

text \<open>The group \<^verbatim>\<open>(.+)\<close> at the start of a text: the longest run without line terminator.\<close>

fun dot_plus :: "string \<Rightarrow> string" where
  "dot_plus [] = []"
| "dot_plus (c # cs) = (if line_terminator (c # cs) then [] else c # dot_plus cs)"

text \<open>\<^verbatim>\<open>/\/websearch (.+)/.exec(text)\<close>: the group of the leftmost match, if there is one.\<close>

fun exec_websearch :: "string \<Rightarrow> string option" where
  "exec_websearch [] = None"
| "exec_websearch (c # cs) =
     (if startsWith (c # cs) ''/websearch '' \<and> dot_plus (drop 11 (c # cs)) \<noteq> []
      then Some (dot_plus (drop 11 (c # cs)))
      else exec_websearch cs)"

datatype callback = OnStart | OnContact | OnHelp | OnMessage | OnWebsearch string | OnPhoto

definition message_type :: "message \<Rightarrow> string option" where
  "message_type msg =
     (if truthy (msg_text msg) then Some ''text''
      else if msg_contact msg \<noteq> None then Some ''contact''
      else if msg_photo msg \<noteq> None then Some ''photo''
      else None)"

definition emitted :: "message \<Rightarrow> callback list" where
  "emitted msg =
     OnMessage #
     (if message_type msg = Some ''contact'' then [OnContact]
      else if message_type msg = Some ''photo'' then [OnPhoto]
      else [])"

text \<open>The \<^verbatim>\<open>onText\<close> callbacks of \<^verbatim>\<open>src/bot.js\<close>, in the order registered: lines 49, 85
  and 119.\<close>

definition text_callbacks :: "message \<Rightarrow> callback list" where
  "text_callbacks msg =
     (case msg_text msg of
        None \<Rightarrow> []
      | Some t \<Rightarrow>
          if t = [] then []
          else (if matches_literal ''/start'' t then [OnStart] else []) @
               (if matches_literal ''/help'' t then [OnHelp] else []) @
               (case exec_websearch t of None \<Rightarrow> [] | Some q \<Rightarrow> [OnWebsearch q]))"

text \<open>The \<^verbatim>\<open>onText\<close> callbacks of \<^verbatim>\<open>src/unnamed/part_000\<close>: lines 57 and 109.\<close>

definition text_callbacks_wh :: "message \<Rightarrow> callback list" where
  "text_callbacks_wh msg =
     (case msg_text msg of
        None \<Rightarrow> []
      | Some t \<Rightarrow>
          if t = [] then []
          else (if matches_literal ''/start'' t then [OnStart] else []) @
               (case exec_websearch t of None \<Rightarrow> [] | Some q \<Rightarrow> [OnWebsearch q]))"

definition callbacks :: "message \<Rightarrow> callback list" where
  "callbacks msg = emitted msg @ text_callbacks msg"

definition callbacks_wh :: "message \<Rightarrow> callback list" where
  "callbacks_wh msg = emitted msg @ text_callbacks_wh msg"

fun run :: "env \<Rightarrow> message \<Rightarrow> callback \<Rightarrow> world \<Rightarrow> error option \<times> world" where
  "run e msg OnStart w = on_start e msg w"
| "run e msg OnContact w = on_contact e msg w"
| "run e msg OnHelp w = on_help e msg w"
| "run e msg OnMessage w = on_message e msg w"
| "run e msg (OnWebsearch q) w = on_websearch e msg q w"
| "run e msg OnPhoto w = on_photo e msg w"

text \<open>The webhook variant registers no \<^verbatim>\<open>/help\<close> callback.\<close>

fun run_wh :: "env \<Rightarrow> message \<Rightarrow> callback \<Rightarrow> world \<Rightarrow> error option \<times> world" where
  "run_wh e msg OnStart w = on_start_wh e msg w"
| "run_wh e msg OnContact w = on_contact_wh e msg w"
| "run_wh e msg OnHelp w = (None, w)"
| "run_wh e msg OnMessage w = on_message_wh e msg w"
| "run_wh e msg (OnWebsearch q) w = on_websearch_wh e msg q w"
| "run_wh e msg OnPhoto w = on_photo_wh e msg w"

text \<open>The callbacks of one update, each run to its end in the order called; the result
  collects the rejections. (The callbacks are asynchronous: their steps may interleave.
  What each sends and stores depends on the answers it gets, which the environment fixes.)\<close>

fun run_all ::
  "(callback \<Rightarrow> world \<Rightarrow> error option \<times> world) \<Rightarrow> callback list \<Rightarrow> world \<Rightarrow> error list \<times> world"
where
  "run_all f [] w = ([], w)"
| "run_all f (c # cs) w =
     (case f c w of
        (r, w1) \<Rightarrow>
          (case run_all f cs w1 of
             (rs, w2) \<Rightarrow> ((case r of None \<Rightarrow> [] | Some err \<Rightarrow> [err]) @ rs, w2)))"

definition processUpdate :: "env \<Rightarrow> message \<Rightarrow> world \<Rightarrow> error list \<times> world" where
  "processUpdate e msg w = run_all (run e msg) (callbacks msg) w"

definition processUpdate_wh :: "env \<Rightarrow> message \<Rightarrow> world \<Rightarrow> error list \<times> world" where
  "processUpdate_wh e msg w = run_all (run_wh e msg) (callbacks_wh msg) w"

subsection \<open>Sample inputs\<close>

definition empty_world :: world where
  "empty_world = \<lparr>users = [], chats = [], sent = [], logged = [], requests = []\<rparr>"

definition ana :: user where
  "ana = \<lparr>chat_id = 42, first_name = Some ''Ana'', username = Some ''ana_b'',
          phone_number = Some ''+100''\<rparr>"

definition ana_world :: world where
  "ana_world = \<lparr>users = [ana], chats = [], sent = [], logged = [], requests = []\<rparr>"

definition hello :: gen_result where
  "hello = \<lparr>response_text = Inr ''Hello!''\<rparr>"

definition empty_completion :: gen_result where
  "empty_completion = \<lparr>response_text = Inr []\<rparr>"

definition three_items :: "item list" where
  "three_items =
     [\<lparr>title = ''A'', link = ''http://a''\<rparr>, \<lparr>title = ''B'', link = ''http://b''\<rparr>,
      \<lparr>title = ''C'', link = ''http://c''\<rparr>]"

text \<open>Every service answers.\<close>

definition all_up :: env where
  "all_up =
     \<lparr>TELEGRAM_BOT_TOKEN = ''TOKEN'', now = 1000,
      answer_findOne = (\<lambda>c. None), answer_save_user = (\<lambda>u. None),
      answer_updateOne = (\<lambda>c p. None), answer_save_chat = (\<lambda>c. None),
      answer_search = (\<lambda>q. Inr (Some three_items)),
      answer_generate = (\<lambda>r. Inr hello),
      answer_getFile = (\<lambda>f. Inr (Some ''photos/file_7.png'')),
      answer_download = (\<lambda>u. Inr ''Man'')\<rparr>"

definition message_of :: "string option \<Rightarrow> message" where
  "message_of txt =
     \<lparr>msg_chat_id = 42, msg_first_name = Some ''Ana'', msg_username = Some ''ana_b'',
      msg_text = txt, msg_contact = None, msg_photo = None\<rparr>"

text \<open>The store rejects every write of a conversation turn.\<close>

definition writes_fail :: env where
  "writes_fail = all_up\<lparr>answer_save_chat := (\<lambda>c. Some StoreError)\<rparr>"

text \<open>The model answers every request with an empty completion.\<close>

definition gives_empty :: env where
  "gives_empty = all_up\<lparr>answer_generate := (\<lambda>r. Inr empty_completion)\<rparr>"

text \<open>The search request is rejected.\<close>

definition search_down :: env where
  "search_down = all_up\<lparr>answer_search := (\<lambda>q. Inl SearchError)\<rparr>"


text \<open>A photo update without text, with two sizes of the photo.\<close>

definition photo_message :: message where
  "photo_message = (message_of None)\<lparr>msg_photo := Some [''small'', ''large'']\<rparr>"

text \<open>The model rejects every request.\<close>

definition model_down :: env where
  "model_down = all_up\<lparr>answer_generate := (\<lambda>r. Inl GenerationError)\<rparr>"

text \<open>A contact update without text.\<close>

definition contact_message :: message where
  "contact_message = (message_of None)\<lparr>msg_contact := Some ''+4912345''\<rparr>"

text \<open>The model answers every request, and reading the text of the answer throws.\<close>

definition text_throws :: env where
  "text_throws =
     all_up\<lparr>answer_generate := (\<lambda>r. Inr \<lparr>response_text = Inl GenerationError\<rparr>)\<rparr>"

section \<open>Properties\<close>

lemma startsWith_prefix: "startsWith s n \<longleftrightarrow> prefix n s"
proof
  assume "startsWith s n"
  then have "take (length n) s = n" by (simp add: startsWith_def)
  then have "s = n @ drop (length n) s" by (metis append_take_drop_id)
  then show "prefix n s" by (metis prefixI)
next
  assume "prefix n s"
  then obtain r where "s = n @ r" by (auto elim: prefixE)
  then show "startsWith s n" by (simp add: startsWith_def)
qed

lemma endsWith_suffix: "endsWith s n \<longleftrightarrow> suffix n s"
proof
  assume "endsWith s n"
  then have "drop (length s - length n) s = n" by (simp add: endsWith_def)
  then have "s = take (length s - length n) s @ n" by (metis append_take_drop_id)
  then show "suffix n s" by (metis suffixI)
next
  assume "suffix n s"
  then obtain p where "s = p @ n" by (auto elim: suffixE)
  then show "endsWith s n" by (simp add: endsWith_def)
qed

lemma slice_0: "slice 0 e xs = take e xs"
  by (simp add: slice_def min_def)

subsection \<open>Rendering of the search results\<close>

lemma searchResults_take: "searchResults (take 3 items) = searchResults items"
  by (simp add: searchResults_def slice_0)

text \<open>
  Claim C5. For every sequence of results returned by the search client, the search handler
  renders at most the first three of them, each as its title, a newline and its link, with
  a blank line between consecutive results, in the order in which they were returned.
\<close>

theorem searchResults_first_three:
  "searchResults items =
     (case items of
        [] \<Rightarrow> []
      | [a] \<Rightarrow> title a @ ''\<newline>'' @ link a
      | [a, b] \<Rightarrow> title a @ ''\<newline>'' @ link a @ ''\<newline>\<newline>'' @ title b @ ''\<newline>'' @ link b
      | a # b # c # rest \<Rightarrow>
          title a @ ''\<newline>'' @ link a @ ''\<newline>\<newline>'' @ title b @ ''\<newline>'' @ link b @
          ''\<newline>\<newline>'' @ title c @ ''\<newline>'' @ link c)"
  by (simp add: searchResults_def slice_0 render_item_def split: list.splits)

subsection \<open>MIME type inference\<close>

lemma png_not_webp: "suffix ''.png'' p \<Longrightarrow> \<not> suffix ''.webp'' p"
  by (auto simp: suffix_def)

text \<open>
  Claim C7, as stated, says that a path ending in \<open>.webp\<close> yields \<open>image/webp\<close> in the
  image handler. The webhook variant tests the \<open>.png\<close> suffix only: there a \<open>.webp\<close> path
  yields \<open>image/jpeg\<close>.
\<close>

theorem mimeType_webp_counterexample:
  "endsWith ''photos/file_7.webp'' ''.webp'' \<and>
   mimeType_wh ''photos/file_7.webp'' \<noteq> ''image/webp''"
  by (simp add: mimeType_wh_def endsWith_def)

text \<open>
  Claim C7, amended. For every resolved file path, both variants infer \<open>image/png\<close> when
  the path ends in \<open>.png\<close>. For a path ending in \<open>.webp\<close> the polling variant infers
  \<open>image/webp\<close> and the webhook variant \<open>image/jpeg\<close>. For every other path both infer
  \<open>image/jpeg\<close>.
\<close>

theorem mimeType_by_suffix:
  "(suffix ''.png'' p \<longrightarrow> mimeType p = ''image/png'' \<and> mimeType_wh p = ''image/png'') \<and>
   (suffix ''.webp'' p \<longrightarrow> mimeType p = ''image/webp'' \<and> mimeType_wh p = ''image/jpeg'') \<and>
   (\<not> suffix ''.png'' p \<and> \<not> suffix ''.webp'' p \<longrightarrow>
      mimeType p = ''image/jpeg'' \<and> mimeType_wh p = ''image/jpeg'')"
  using png_not_webp [of p]
  by (auto simp: mimeType_def mimeType_wh_def endsWith_suffix)

theorem mimeType_by_suffix_witness:
  "mimeType ''photos/file_7.png'' = ''image/png'' \<and>
   mimeType_wh ''photos/file_7.png'' = ''image/png'' \<and>
   mimeType ''photos/file_7.webp'' = ''image/webp'' \<and>
   mimeType_wh ''photos/file_7.webp'' = ''image/jpeg'' \<and>
   mimeType ''photos/file_7.jpg'' = ''image/jpeg'' \<and>
   mimeType_wh ''photos/file_7.jpg'' = ''image/jpeg''"
proof -
  have a: "suffix ''.png'' ''photos/file_7.png''"
    by (simp add: endsWith_suffix [symmetric] endsWith_def)
  have b: "suffix ''.webp'' ''photos/file_7.webp''"
    by (simp add: endsWith_suffix [symmetric] endsWith_def)
  have c: "\<not> suffix ''.png'' ''photos/file_7.jpg'' \<and> \<not> suffix ''.webp'' ''photos/file_7.jpg''"
    by (simp add: endsWith_suffix [symmetric] endsWith_def)
  show ?thesis
    using mimeType_by_suffix [of "''photos/file_7.png''"]
      mimeType_by_suffix [of "''photos/file_7.webp''"]
      mimeType_by_suffix [of "''photos/file_7.jpg''"] a b c
    by blast
qed

subsection \<open>Facts about the store and the patterns\<close>

lemmas store_defs = User_findOne_def User_save_def User_updateOne_def Chat_save_def issue_def
  sendMessage_def console_error_def

lemmas service_defs = generateContent_def customsearch_def getFile_def download_def

lemmas split_all = sum.splits option.splits prod.splits

lemma find_None_iff_absent: "find (\<lambda>u. chat_id u = c) us = None \<longleftrightarrow> c \<notin> chat_id ` set us"
  by (auto simp: find_None_iff)




lemma matches_literal_sublist: "matches_literal pat t \<longleftrightarrow> sublist pat t"
  by (induction t) (auto simp: startsWith_prefix sublist_Cons_right)

lemma matches_literal_append: "matches_literal pat (p @ pat @ s)"
  by (simp add: matches_literal_sublist)

lemma text_startsWith_Some: "t \<noteq> [] \<Longrightarrow> text_startsWith (Some t) n = startsWith t n"
  by (simp add: text_startsWith_def)

subsection \<open>Registration\<close>

text \<open>
  Claim C8. For a chat id with no user record in the store, the registration callback
  creates exactly one new user record and sends a welcome message followed by the request
  for the contact; for a chat id that has a record, it creates none and sends the
  welcome-back message. This is the course of the callback when the store answers the lookup
  and the write; it holds in both variants.
\<close>

theorem registration:
  assumes "answer_findOne e (msg_chat_id msg) = None"
    and "answer_save_user e \<lparr>chat_id = msg_chat_id msg, first_name = msg_first_name msg,
           username = msg_username msg, phone_number = None\<rparr> = None"
  shows
    "(msg_chat_id msg \<notin> chat_id ` set (users w) \<longrightarrow>
        users (snd (on_start e msg w)) =
          users w @ [\<lparr>chat_id = msg_chat_id msg, first_name = msg_first_name msg,
                      username = msg_username msg, phone_number = None\<rparr>] \<and>
        sent (snd (on_start e msg w)) =
          sent w @
          [\<lparr>recipient = msg_chat_id msg,
            body = ''Welcome, '' @ interpolate (msg_first_name msg) @
                   ''! You can ask questions to this bot. Feel free to drop any questions here'',
            markup = None\<rparr>,
           \<lparr>recipient = msg_chat_id msg,
            body = ''To continue chatting, please share your Phone Number by clicking the button next to the typing area.'',
            markup = Some share_phone_keyboard\<rparr>] \<and>
        users (snd (on_start_wh e msg w)) =
          users w @ [\<lparr>chat_id = msg_chat_id msg, first_name = msg_first_name msg,
                      username = msg_username msg, phone_number = None\<rparr>] \<and>
        sent (snd (on_start_wh e msg w)) =
          sent w @
          [\<lparr>recipient = msg_chat_id msg,
            body = ''Welcome, '' @ interpolate (msg_first_name msg) @ ''! You can ask me anything.'',
            markup = None\<rparr>,
           \<lparr>recipient = msg_chat_id msg,
            body = ''Please share your phone number by clicking the button below.'',
            markup = Some share_phone_keyboard\<rparr>]) \<and>
     (msg_chat_id msg \<in> chat_id ` set (users w) \<longrightarrow>
        users (snd (on_start e msg w)) = users w \<and>
        sent (snd (on_start e msg w)) =
          sent w @
          [\<lparr>recipient = msg_chat_id msg,
            body = ''Welcome back '' @ interpolate (msg_first_name msg) @
                   ''! Please ask a question. I will be happy to assist you!!'',
            markup = None\<rparr>] \<and>
        users (snd (on_start_wh e msg w)) = users w \<and>
        sent (snd (on_start_wh e msg w)) =
          sent w @
          [\<lparr>recipient = msg_chat_id msg,
            body = ''Welcome back, '' @ interpolate (msg_first_name msg) @ ''! Ask me anything.'',
            markup = None\<rparr>])"
proof -
  let ?found = "find (\<lambda>u. chat_id u = msg_chat_id msg) (users w)"
  have new: "?found = None" if "msg_chat_id msg \<notin> chat_id ` set (users w)"
    using that by (simp add: find_None_iff_absent)
  have old: "\<exists>u. ?found = Some u" if "msg_chat_id msg \<in> chat_id ` set (users w)"
    using that find_None_iff_absent [of "msg_chat_id msg" "users w"] by (cases ?found) auto
  show ?thesis
    using assms new old
    by (auto simp: on_start_def on_start_wh_def store_defs Let_def)
qed

theorem registration_witness:
  "users (snd (on_start all_up (message_of (Some ''/start'')) empty_world)) =
     [\<lparr>chat_id = 42, first_name = Some ''Ana'', username = Some ''ana_b'', phone_number = None\<rparr>] \<and>
   length (sent (snd (on_start all_up (message_of (Some ''/start'')) empty_world))) = 2 \<and>
   users (snd (on_start all_up (message_of (Some ''/start'')) ana_world)) = [ana] \<and>
   length (sent (snd (on_start all_up (message_of (Some ''/start'')) ana_world))) = 1"
proof -
  let ?m = "message_of (Some ''/start'')"
  have a: "answer_findOne all_up (msg_chat_id ?m) = None"
    by (simp add: all_up_def)
  have b: "answer_save_user all_up \<lparr>chat_id = msg_chat_id ?m, first_name = msg_first_name ?m,
             username = msg_username ?m, phone_number = None\<rparr> = None"
    by (simp add: all_up_def)
  have new: "msg_chat_id ?m \<notin> chat_id ` set (users empty_world)"
    by (simp add: empty_world_def)
  have old: "msg_chat_id ?m \<in> chat_id ` set (users ana_world)"
    by (simp add: ana_world_def ana_def message_of_def)
  from registration [OF a b, of empty_world] new
  have 1: "users (snd (on_start all_up ?m empty_world)) =
      [\<lparr>chat_id = 42, first_name = Some ''Ana'', username = Some ''ana_b'', phone_number = None\<rparr>] \<and>
    length (sent (snd (on_start all_up ?m empty_world))) = 2"
    by (simp add: empty_world_def message_of_def)
  from registration [OF a b, of ana_world] old
  have 2: "users (snd (on_start all_up ?m ana_world)) = [ana] \<and>
    length (sent (snd (on_start all_up ?m ana_world))) = 1"
    by (simp add: ana_world_def)
  from 1 2 show ?thesis by simp
qed

subsection \<open>Contact\<close>




subsection \<open>The registration trigger\<close>

text \<open>Every callback only adds to the requests issued, and the registration callback
  begins with the lookup of the user.\<close>

lemma on_start_requests:
  "\<exists>rs. requests (snd (on_start e msg w)) = requests w @ FindOne (msg_chat_id msg) # rs"
  by (auto simp: on_start_def store_defs Let_def split: split_all)

lemma on_start_wh_requests:
  "\<exists>rs. requests (snd (on_start_wh e msg w)) = requests w @ FindOne (msg_chat_id msg) # rs"
  by (auto simp: on_start_wh_def store_defs Let_def split: split_all)

lemma on_contact_grows: "\<exists>rs. requests (snd (on_contact e msg w)) = requests w @ rs"
  by (auto simp: on_contact_def store_defs Let_def split: split_all)

lemma on_contact_wh_grows: "\<exists>rs. requests (snd (on_contact_wh e msg w)) = requests w @ rs"
  by (auto simp: on_contact_wh_def store_defs Let_def split: split_all)

lemma on_help_grows: "\<exists>rs. requests (snd (on_help e msg w)) = requests w @ rs"
  by (simp add: on_help_def store_defs)

lemma on_message_grows: "\<exists>rs. requests (snd (on_message e msg w)) = requests w @ rs"
  by (auto simp: on_message_def on_message_try_def store_defs service_defs Let_def
      split: split_all)

lemma on_message_wh_grows: "\<exists>rs. requests (snd (on_message_wh e msg w)) = requests w @ rs"
  by (auto simp: on_message_wh_def on_message_try_wh_def store_defs service_defs Let_def
      split: split_all)

lemma on_websearch_grows: "\<exists>rs. requests (snd (on_websearch e msg q w)) = requests w @ rs"
  by (auto simp: on_websearch_def on_websearch_try_def store_defs service_defs Let_def
      split: split_all)

lemma on_websearch_wh_grows:
  "\<exists>rs. requests (snd (on_websearch_wh e msg q w)) = requests w @ rs"
  by (auto simp: on_websearch_wh_def on_websearch_try_wh_def store_defs service_defs Let_def
      split: split_all)

lemma on_photo_grows: "\<exists>rs. requests (snd (on_photo e msg w)) = requests w @ rs"
  by (auto simp: on_photo_def on_photo_try_def store_defs service_defs Let_def split: split_all)

lemma on_photo_wh_grows: "\<exists>rs. requests (snd (on_photo_wh e msg w)) = requests w @ rs"
  by (auto simp: on_photo_wh_def on_photo_try_wh_def store_defs service_defs Let_def
      split: split_all)

lemma run_grows: "\<exists>rs. requests (snd (run e msg cb w)) = requests w @ rs"
proof (cases cb)
  case OnStart
  then show ?thesis using on_start_requests [of e msg w] by auto
next
  case OnContact
  then show ?thesis using on_contact_grows [of e msg w] by simp
next
  case OnHelp
  then show ?thesis using on_help_grows [of e msg w] by simp
next
  case OnMessage
  then show ?thesis using on_message_grows [of e msg w] by simp
next
  case (OnWebsearch q)
  then show ?thesis using on_websearch_grows [of e msg q w] by simp
next
  case OnPhoto
  then show ?thesis using on_photo_grows [of e msg w] by simp
qed

lemma run_wh_grows: "\<exists>rs. requests (snd (run_wh e msg cb w)) = requests w @ rs"
proof (cases cb)
  case OnStart
  then show ?thesis using on_start_wh_requests [of e msg w] by auto
next
  case OnContact
  then show ?thesis using on_contact_wh_grows [of e msg w] by simp
next
  case OnHelp
  then show ?thesis by simp
next
  case OnMessage
  then show ?thesis using on_message_wh_grows [of e msg w] by simp
next
  case (OnWebsearch q)
  then show ?thesis using on_websearch_wh_grows [of e msg q w] by simp
next
  case OnPhoto
  then show ?thesis using on_photo_wh_grows [of e msg w] by simp
qed

lemma run_all_Cons:
  "snd (run_all f (c # cs) w) = snd (run_all f cs (snd (f c w)))"
  by (simp split: prod.splits)

lemma run_all_grows:
  assumes "\<And>c w. \<exists>rs. requests (snd (f c w)) = requests w @ rs"
  shows "\<exists>rs. requests (snd (run_all f cs w)) = requests w @ rs"
proof (induction cs arbitrary: w)
  case Nil
  show ?case by simp
next
  case (Cons c cs)
  obtain r1 where 1: "requests (snd (f c w)) = requests w @ r1"
    using assms by blast
  obtain r2 where 2: "requests (snd (run_all f cs (snd (f c w)))) = requests (snd (f c w)) @ r2"
    using Cons.IH by blast
  have "requests (snd (run_all f (c # cs) w)) = requests w @ (r1 @ r2)"
    by (simp only: run_all_Cons 1 2 append_assoc)
  then show ?case by blast
qed

lemma run_all_issues:
  assumes grow: "\<And>c w. \<exists>rs. requests (snd (f c w)) = requests w @ rs"
    and first: "\<And>w. \<exists>rs. requests (snd (f a w)) = requests w @ x # rs"
    and mem: "a \<in> set cs"
  shows "\<exists>pre post. requests (snd (run_all f cs w)) = requests w @ pre @ x # post"
  using mem
proof (induction cs arbitrary: w)
  case Nil
  then show ?case by simp
next
  case (Cons c cs)
  show ?case
  proof (cases "a = c")
    case True
    obtain r1 where 1: "requests (snd (f c w)) = requests w @ x # r1"
      using first True by blast
    obtain r2 where 2: "requests (snd (run_all f cs (snd (f c w)))) = requests (snd (f c w)) @ r2"
      using run_all_grows [of f cs, OF grow] by blast
    have "requests (snd (run_all f (c # cs) w)) = requests w @ [] @ x # (r1 @ r2)"
      by (simp only: run_all_Cons 1 2) simp
    then show ?thesis by blast
  next
    case False
    with Cons.prems have "a \<in> set cs" by simp
    then obtain pre post where
      2: "requests (snd (run_all f cs (snd (f c w)))) = requests (snd (f c w)) @ pre @ x # post"
      using Cons.IH by blast
    obtain r1 where 1: "requests (snd (f c w)) = requests w @ r1"
      using grow by blast
    have "requests (snd (run_all f (c # cs) w)) = requests w @ (r1 @ pre) @ x # post"
      by (simp only: run_all_Cons 1 2) simp
    then show ?thesis by blast
  qed
qed

text \<open>
  Claim C10. The registration trigger is not anchored: for every message whose text
  contains \<open>/start\<close> anywhere, such as \<open>please /start now\<close>, the delivery of the
  update calls the registration callback, in both variants: the callback is among those
  called, and the requests issued while the update is processed include the lookup of the
  user by the chat id, with which the registration callback begins.
\<close>

theorem start_unanchored:
  assumes "msg_text msg = Some (p @ ''/start'' @ s)"
  shows "OnStart \<in> set (callbacks msg) \<and> OnStart \<in> set (callbacks_wh msg) \<and>
         (\<exists>pre post. requests (snd (processUpdate e msg w)) =
                        requests w @ pre @ FindOne (msg_chat_id msg) # post) \<and>
         (\<exists>pre post. requests (snd (processUpdate_wh e msg w)) =
                        requests w @ pre @ FindOne (msg_chat_id msg) # post)"
proof -
  have m: "OnStart \<in> set (callbacks msg)" "OnStart \<in> set (callbacks_wh msg)"
    using assms matches_literal_append [of "''/start''" p s]
    by (simp_all add: callbacks_def callbacks_wh_def text_callbacks_def text_callbacks_wh_def)
  have 1: "\<exists>pre post. requests (snd (run_all (run e msg) (callbacks msg) w)) =
                        requests w @ pre @ FindOne (msg_chat_id msg) # post"
  proof (rule run_all_issues [where a = OnStart])
    show "\<exists>rs. requests (snd (run e msg c w')) = requests w' @ rs" for c w'
      by (rule run_grows)
    show "\<exists>rs. requests (snd (run e msg OnStart w')) = requests w' @ FindOne (msg_chat_id msg) # rs"
      for w' using on_start_requests [of e msg w'] by simp
    show "OnStart \<in> set (callbacks msg)" by (rule m)
  qed
  have 2: "\<exists>pre post. requests (snd (run_all (run_wh e msg) (callbacks_wh msg) w)) =
                        requests w @ pre @ FindOne (msg_chat_id msg) # post"
  proof (rule run_all_issues [where a = OnStart])
    show "\<exists>rs. requests (snd (run_wh e msg c w')) = requests w' @ rs" for c w'
      by (rule run_wh_grows)
    show "\<exists>rs. requests (snd (run_wh e msg OnStart w')) =
            requests w' @ FindOne (msg_chat_id msg) # rs"
      for w' using on_start_wh_requests [of e msg w'] by simp
    show "OnStart \<in> set (callbacks_wh msg)" by (rule m)
  qed
  from m 1 2 show ?thesis by (simp only: processUpdate_def processUpdate_wh_def)
qed

theorem start_unanchored_witness:
  "FindOne 42 \<in> set (requests (snd (processUpdate all_up (message_of (Some ''please /start now''))
                                      empty_world))) \<and>
   FindOne 42 \<in> set (requests (snd (processUpdate_wh all_up
                                      (message_of (Some ''please /start now'')) empty_world)))"
proof -
  let ?m = "message_of (Some ''please /start now'')"
  have t: "msg_text ?m = Some (''please '' @ ''/start'' @ '' now'')"
    by (simp add: message_of_def)
  have c: "msg_chat_id ?m = 42" "requests empty_world = []"
    by (simp_all add: message_of_def empty_world_def)
  from start_unanchored [OF t, of all_up empty_world] c show ?thesis by auto
qed

subsection \<open>A failed write of the turn\<close>

text \<open>
  Claim C2, as stated, says that the reply is delivered even when the write of the
  conversation turn fails. In the callbacks the write is awaited inside the \<^verbatim>\<open>try\<close>
  block, before the reply is sent. Here the model has answered \<open>Hello!\<close> to the text
  \<open>hi\<close> and the store rejects the write: the only message sent is the apology.
\<close>

theorem failed_write_counterexample:
  "answer_generate writes_fail \<lparr>model = ''gemini-pro'', parts = [Text (Some ''hi'')]\<rparr> = Inr hello \<and>
   response_text hello = Inr ''Hello!'' \<and>
   sent (snd (on_message writes_fail (message_of (Some ''hi'')) empty_world)) =
     [\<lparr>recipient = 42,
       body = ''Sorry, I couldn't process your request. Please try again later.'',
       markup = None\<rparr>]"
  by (simp add: on_message_def on_message_try_def store_defs service_defs Let_def
      text_startsWith_def truthy_def startsWith_def
      writes_fail_def all_up_def hello_def message_of_def empty_world_def)

text \<open>
  Claim C2, amended. When the store rejects the write of the conversation turn, the chat,
  search and image callbacks of both variants do not send the generated reply: each sends
  exactly one message, its fixed error message, and stores no turn.
\<close>

theorem failed_write_blocks_reply:
  assumes "\<forall>c. answer_save_chat e c \<noteq> None"
  shows
    "(truthy (msg_text msg) \<and> \<not> text_startsWith (msg_text msg) ''/start'' \<and>
      \<not> text_startsWith (msg_text msg) ''/websearch'' \<longrightarrow>
        sent (snd (on_message e msg w)) =
          sent w @ [\<lparr>recipient = msg_chat_id msg,
                     body = ''Sorry, I couldn't process your request. Please try again later.'',
                     markup = None\<rparr>] \<and>
        chats (snd (on_message e msg w)) = chats w) \<and>
     sent (snd (on_message_wh e msg w)) =
       sent w @ [\<lparr>recipient = msg_chat_id msg, body = ''Sorry, I couldn't process your request.'',
                  markup = None\<rparr>] \<and>
     chats (snd (on_message_wh e msg w)) = chats w \<and>
     (\<forall>h \<in> {on_websearch, on_websearch_wh}.
        sent (snd (h e msg q w)) =
          sent w @ [\<lparr>recipient = msg_chat_id msg, body = ''Error fetching search results.'',
                     markup = None\<rparr>] \<and>
        chats (snd (h e msg q w)) = chats w) \<and>
     (msg_photo msg = Some sizes \<and> sizes \<noteq> [] \<longrightarrow>
        (\<forall>h \<in> {on_photo, on_photo_wh}.
           sent (snd (h e msg w)) =
             sent w @ [\<lparr>recipient = msg_chat_id msg, body = ''Error analyzing the image.'',
                        markup = None\<rparr>] \<and>
           chats (snd (h e msg w)) = chats w))"
proof -
  have s [simp]: "\<And>c. answer_save_chat e c \<noteq> None"
    using assms by auto
  have 1: "truthy (msg_text msg) \<and> \<not> text_startsWith (msg_text msg) ''/start'' \<and>
      \<not> text_startsWith (msg_text msg) ''/websearch'' \<longrightarrow>
        sent (snd (on_message e msg w)) =
          sent w @ [\<lparr>recipient = msg_chat_id msg,
                     body = ''Sorry, I couldn't process your request. Please try again later.'',
                     markup = None\<rparr>] \<and>
        chats (snd (on_message e msg w)) = chats w"
    by (auto simp: on_message_def on_message_try_def store_defs service_defs Let_def
        split: sum.splits option.splits prod.splits)
  have 2: "sent (snd (on_message_wh e msg w)) =
       sent w @ [\<lparr>recipient = msg_chat_id msg, body = ''Sorry, I couldn't process your request.'',
                  markup = None\<rparr>] \<and>
     chats (snd (on_message_wh e msg w)) = chats w"
    by (auto simp: on_message_wh_def on_message_try_wh_def store_defs service_defs Let_def
        split: sum.splits option.splits prod.splits)
  have 3: "sent (snd (on_websearch e msg q w)) =
       sent w @ [\<lparr>recipient = msg_chat_id msg, body = ''Error fetching search results.'',
                  markup = None\<rparr>] \<and>
     chats (snd (on_websearch e msg q w)) = chats w"
    by (auto simp: on_websearch_def on_websearch_try_def store_defs service_defs Let_def
        split: sum.splits option.splits prod.splits)
  have 4: "sent (snd (on_websearch_wh e msg q w)) =
       sent w @ [\<lparr>recipient = msg_chat_id msg, body = ''Error fetching search results.'',
                  markup = None\<rparr>] \<and>
     chats (snd (on_websearch_wh e msg q w)) = chats w"
    by (auto simp: on_websearch_wh_def on_websearch_try_wh_def store_defs service_defs Let_def
        split: sum.splits option.splits prod.splits)
  have 5: "msg_photo msg = Some sizes \<and> sizes \<noteq> [] \<longrightarrow>
        sent (snd (on_photo e msg w)) =
          sent w @ [\<lparr>recipient = msg_chat_id msg, body = ''Error analyzing the image.'',
                     markup = None\<rparr>] \<and>
        chats (snd (on_photo e msg w)) = chats w"
    by (auto simp: on_photo_def on_photo_try_def store_defs service_defs Let_def
        split: sum.splits option.splits prod.splits)
  have 6: "msg_photo msg = Some sizes \<and> sizes \<noteq> [] \<longrightarrow>
        sent (snd (on_photo_wh e msg w)) =
          sent w @ [\<lparr>recipient = msg_chat_id msg, body = ''Error analyzing the image.'',
                     markup = None\<rparr>] \<and>
        chats (snd (on_photo_wh e msg w)) = chats w"
    by (auto simp: on_photo_wh_def on_photo_try_wh_def store_defs service_defs Let_def
        split: sum.splits option.splits prod.splits)
  from 1 2 3 4 5 6 show ?thesis by simp
qed

theorem failed_write_blocks_reply_witness:
  "sent (snd (on_message writes_fail
                ((message_of (Some ''hi''))\<lparr>msg_photo := Some [''small'', ''large'']\<rparr>) empty_world)) =
     [\<lparr>recipient = 42,
       body = ''Sorry, I couldn't process your request. Please try again later.'',
       markup = None\<rparr>] \<and>
   sent (snd (on_photo_wh writes_fail
                ((message_of (Some ''hi''))\<lparr>msg_photo := Some [''small'', ''large'']\<rparr>) empty_world)) =
     [\<lparr>recipient = 42, body = ''Error analyzing the image.'', markup = None\<rparr>]"
proof -
  let ?m = "(message_of (Some ''hi''))\<lparr>msg_photo := Some [''small'', ''large'']\<rparr>"
  have a: "\<forall>c. answer_save_chat writes_fail c \<noteq> None"
    by (simp add: writes_fail_def)
  have b: "truthy (msg_text ?m) \<and> \<not> text_startsWith (msg_text ?m) ''/start'' \<and>
           \<not> text_startsWith (msg_text ?m) ''/websearch''"
    by (simp add: message_of_def truthy_def text_startsWith_def startsWith_def)
  have c: "msg_photo ?m = Some [''small'', ''large''] \<and> [''small'', ''large''] \<noteq> ([] :: string list)"
    by (simp add: message_of_def)
  have d: "msg_chat_id ?m = 42" "sent empty_world = []"
    by (simp_all add: message_of_def empty_world_def)
  from failed_write_blocks_reply [OF a, of ?m empty_world "''rust''" "[''small'', ''large'']"] b c d
  show ?thesis by simp
qed

subsection \<open>The chat callback\<close>

text \<open>
  Claim C3, as stated, counts an empty completion as a failure of the model: no turn
  stored, the fixed apology sent. With the model answering an empty completion to \<open>hi\<close>,
  the polling variant stores a turn with the empty response and sends the empty text.
\<close>

theorem chat_empty_completion_counterexample:
  "answer_generate gives_empty \<lparr>model = ''gemini-pro'', parts = [Text (Some ''hi'')]\<rparr> =
     Inr empty_completion \<and>
   response_text empty_completion = Inr [] \<and>
   chats (snd (on_message gives_empty (message_of (Some ''hi'')) empty_world)) =
     [\<lparr>chat_id = 42, user_input = Some ''hi'', bot_response = [], timestamp = 1000\<rparr>] \<and>
   sent (snd (on_message gives_empty (message_of (Some ''hi'')) empty_world)) =
     [\<lparr>recipient = 42, body = [], markup = None\<rparr>]"
  by (simp add: on_message_def on_message_try_def
      store_defs service_defs Let_def text_startsWith_def truthy_def startsWith_def
      gives_empty_def all_up_def empty_completion_def message_of_def empty_world_def)

text \<open>
  Claim C3, amended. For every run of the chat callback on a non-empty text (in the
  polling variant: one that does not begin with \<open>/start\<close> or \<open>/websearch\<close>).
  In the polling variant: if the model returns a text, empty or not, and the store accepts
  the write, exactly one turn is appended, with the original text as user input and the
  model's output as response, and that output is sent; if the request to the model is
  rejected or reading the text of the result throws, no turn is appended and the fixed
  apology is sent. In the webhook variant: if the request to the model is rejected, no turn
  is appended and the fixed apology is sent.
\<close>

theorem chat_turn:
  assumes "msg_text msg = Some t" and "t \<noteq> []"
    and "\<not> startsWith t ''/start''" and "\<not> startsWith t ''/websearch''"
  shows
    "(answer_generate e \<lparr>model = ''gemini-pro'', parts = [Text (Some t)]\<rparr> = Inr res \<and>
      response_text res = Inr r \<and>
      answer_save_chat e \<lparr>chat_id = msg_chat_id msg, user_input = Some t, bot_response = r,
                          timestamp = now e\<rparr> = None \<longrightarrow>
        chats (snd (on_message e msg w)) =
          chats w @ [\<lparr>chat_id = msg_chat_id msg, user_input = Some t, bot_response = r,
                      timestamp = now e\<rparr>] \<and>
        sent (snd (on_message e msg w)) =
          sent w @ [\<lparr>recipient = msg_chat_id msg, body = r, markup = None\<rparr>]) \<and>
     (answer_generate e \<lparr>model = ''gemini-pro'', parts = [Text (Some t)]\<rparr> = Inl err \<or>
      answer_generate e \<lparr>model = ''gemini-pro'', parts = [Text (Some t)]\<rparr> = Inr res \<and>
      response_text res = Inl err \<longrightarrow>
        chats (snd (on_message e msg w)) = chats w \<and>
        sent (snd (on_message e msg w)) =
          sent w @ [\<lparr>recipient = msg_chat_id msg,
                     body = ''Sorry, I couldn't process your request. Please try again later.'',
                     markup = None\<rparr>]) \<and>
     (answer_generate e \<lparr>model = ''gemini-1.5-pro'', parts = [Text (Some t)]\<rparr> = Inl err \<longrightarrow>
        chats (snd (on_message_wh e msg w)) = chats w \<and>
        sent (snd (on_message_wh e msg w)) =
          sent w @ [\<lparr>recipient = msg_chat_id msg, body = ''Sorry, I couldn't process your request.'',
                     markup = None\<rparr>])"
  using assms
  by (auto simp: on_message_def on_message_try_def on_message_wh_def on_message_try_wh_def
      store_defs service_defs Let_def text_startsWith_Some truthy_def)

theorem chat_turn_witness:
  "chats (snd (on_message all_up (message_of (Some ''hi'')) empty_world)) =
     [\<lparr>chat_id = 42, user_input = Some ''hi'', bot_response = ''Hello!'', timestamp = 1000\<rparr>] \<and>
   sent (snd (on_message all_up (message_of (Some ''hi'')) empty_world)) =
     [\<lparr>recipient = 42, body = ''Hello!'', markup = None\<rparr>] \<and>
   chats (snd (on_message text_throws (message_of (Some ''hi'')) empty_world)) = [] \<and>
   sent (snd (on_message text_throws (message_of (Some ''hi'')) empty_world)) =
     [\<lparr>recipient = 42,
       body = ''Sorry, I couldn't process your request. Please try again later.'',
       markup = None\<rparr>] \<and>
   chats (snd (on_message_wh model_down (message_of (Some ''hi'')) empty_world)) = [] \<and>
   sent (snd (on_message_wh model_down (message_of (Some ''hi'')) empty_world)) =
     [\<lparr>recipient = 42, body = ''Sorry, I couldn't process your request.'', markup = None\<rparr>]"
proof -
  let ?m = "message_of (Some ''hi'')"
  have a: "msg_text ?m = Some ''hi''" "''hi'' \<noteq> []"
    by (simp_all add: message_of_def)
  have b: "\<not> startsWith ''hi'' ''/start''" "\<not> startsWith ''hi'' ''/websearch''"
    by (simp_all add: startsWith_def)
  have c: "answer_generate all_up \<lparr>model = ''gemini-pro'', parts = [Text (Some ''hi'')]\<rparr> = Inr hello \<and>
      response_text hello = Inr ''Hello!'' \<and>
      answer_save_chat all_up \<lparr>chat_id = msg_chat_id ?m, user_input = Some ''hi'',
        bot_response = ''Hello!'', timestamp = now all_up\<rparr> = None"
    by (simp add: all_up_def hello_def)
  have t: "answer_generate text_throws \<lparr>model = ''gemini-pro'', parts = [Text (Some ''hi'')]\<rparr> =
        Inr \<lparr>response_text = Inl GenerationError\<rparr> \<and>
      response_text \<lparr>response_text = Inl GenerationError\<rparr> = Inl GenerationError"
    by (simp add: text_throws_def)
  have f: "answer_generate model_down \<lparr>model = ''gemini-1.5-pro'', parts = [Text (Some ''hi'')]\<rparr> =
        Inl GenerationError"
    by (simp add: model_down_def)
  have d: "msg_chat_id ?m = 42" "now all_up = 1000" "chats empty_world = []" "sent empty_world = []"
    by (simp_all add: message_of_def all_up_def empty_world_def)
  from chat_turn [OF a b, where e = all_up and res = hello and r = "''Hello!''" and w = empty_world]
    c d
  have 1: "chats (snd (on_message all_up ?m empty_world)) =
      [\<lparr>chat_id = 42, user_input = Some ''hi'', bot_response = ''Hello!'', timestamp = 1000\<rparr>] \<and>
    sent (snd (on_message all_up ?m empty_world)) =
      [\<lparr>recipient = 42, body = ''Hello!'', markup = None\<rparr>]"
    by simp
  from chat_turn [OF a b, where e = text_throws and err = GenerationError and w = empty_world
      and res = "\<lparr>response_text = Inl GenerationError\<rparr>"] t d
  have 2: "chats (snd (on_message text_throws ?m empty_world)) = [] \<and>
    sent (snd (on_message text_throws ?m empty_world)) =
      [\<lparr>recipient = 42,
        body = ''Sorry, I couldn't process your request. Please try again later.'',
        markup = None\<rparr>]"
    by simp
  from chat_turn [OF a b, where e = model_down and err = GenerationError and w = empty_world] f d
  have 3: "chats (snd (on_message_wh model_down ?m empty_world)) = [] \<and>
    sent (snd (on_message_wh model_down ?m empty_world)) =
      [\<lparr>recipient = 42, body = ''Sorry, I couldn't process your request.'', markup = None\<rparr>]"
    by simp
  from 1 2 3 show ?thesis by simp
qed

subsection \<open>The search callback\<close>

text \<open>
  Claim C4, as stated, counts an empty summary as a failure of the summarization step: the
  fixed error reply, no turn stored. With the search returning three results and the model
  answering an empty completion, the polling variant stores a turn with the empty summary
  and the webhook variant one with its replacement text, and neither sends the error reply.
\<close>

theorem search_empty_summary_counterexample:
  "chats (snd (on_websearch gives_empty (message_of (Some ''/websearch rust'')) ''rust''
                 empty_world)) =
     [\<lparr>chat_id = 42, user_input = Some ''rust'', bot_response = [], timestamp = 1000\<rparr>] \<and>
   map body (sent (snd (on_websearch gives_empty (message_of (Some ''/websearch rust'')) ''rust''
                          empty_world))) =
     [results_mark @ '' Top search results:\<newline>\<newline>'' @ searchResults three_items @
      ''\<newline>\<newline>'' @ summary_mark @ '' Summary:\<newline>\<newline>''] \<and>
   chats (snd (on_websearch_wh gives_empty (message_of (Some ''/websearch rust'')) ''rust''
                 empty_world)) =
     [\<lparr>chat_id = 42, user_input = Some ''rust'', bot_response = ''No summary available.'',
       timestamp = 1000\<rparr>] \<and>
   map body (sent (snd (on_websearch_wh gives_empty (message_of (Some ''/websearch rust''))
                          ''rust'' empty_world))) =
     [results_mark_wh @ '' Search Results:\<newline>\<newline>'' @ searchResults three_items @
      ''\<newline>\<newline>'' @ summary_mark_wh @ '' Summary:\<newline>No summary available.'']"
  by (simp add: on_websearch_def on_websearch_try_def on_websearch_wh_def on_websearch_try_wh_def
      store_defs service_defs Let_def or_default_def candidate_text_def
      gives_empty_def all_up_def empty_completion_def message_of_def empty_world_def)

text \<open>
  Claim C4, amended. For every run of the search callback, a failure of the search step (the
  request is rejected, or the response has no list of items) or of the summarization step
  (the request to the model is rejected; in the polling variant also: reading the text of
  the result throws) aborts the remaining steps, sends the fixed reply
  \<open>Error fetching search results.\<close> and stores no turn: the requests issued end with
  the failed one. An empty list of items and an empty summary are not failures: with the
  store accepting the write, the turn is stored and the results and the summary are sent, the
  summary being the model's output in the polling variant; in the webhook variant a missing
  or empty summary is replaced by \<open>No summary available.\<close>.
\<close>

theorem search_failures:
  "(answer_search e q = Inl err \<or> answer_search e q = Inr None \<and> err = TypeError \<longrightarrow>
      (\<forall>h \<in> {on_websearch, on_websearch_wh}.
         sent (snd (h e msg q w)) =
           sent w @ [\<lparr>recipient = msg_chat_id msg, body = ''Error fetching search results.'',
                      markup = None\<rparr>] \<and>
         chats (snd (h e msg q w)) = chats w \<and>
         logged (snd (h e msg q w)) = logged w @ [err] \<and>
         requests (snd (h e msg q w)) = requests w @ [Search q])) \<and>
   (answer_search e q = Inr (Some items) \<and>
    rq = \<lparr>model = ''gemini-pro'',
          parts = [Text (Some (''Summarize the following search results:\<newline>\<newline>'' @
                               searchResults items))]\<rparr> \<and>
    (answer_generate e rq = Inl err \<or>
     answer_generate e rq = Inr res \<and> response_text res = Inl err) \<longrightarrow>
      sent (snd (on_websearch e msg q w)) =
        sent w @ [\<lparr>recipient = msg_chat_id msg, body = ''Error fetching search results.'',
                   markup = None\<rparr>] \<and>
      chats (snd (on_websearch e msg q w)) = chats w \<and>
      logged (snd (on_websearch e msg q w)) = logged w @ [err] \<and>
      requests (snd (on_websearch e msg q w)) = requests w @ [Search q, Generate rq]) \<and>
   (answer_search e q = Inr (Some items) \<and>
    rq = \<lparr>model = ''gemini-1.5-pro'',
          parts = [Text (Some (''Summarize this: '' @ searchResults items))]\<rparr> \<and>
    answer_generate e rq = Inl err \<longrightarrow>
      sent (snd (on_websearch_wh e msg q w)) =
        sent w @ [\<lparr>recipient = msg_chat_id msg, body = ''Error fetching search results.'',
                   markup = None\<rparr>] \<and>
      chats (snd (on_websearch_wh e msg q w)) = chats w \<and>
      logged (snd (on_websearch_wh e msg q w)) = logged w @ [err] \<and>
      requests (snd (on_websearch_wh e msg q w)) = requests w @ [Search q, Generate rq]) \<and>
   (answer_search e q = Inr (Some items) \<and>
    answer_generate e
      \<lparr>model = ''gemini-pro'',
       parts = [Text (Some (''Summarize the following search results:\<newline>\<newline>'' @
                            searchResults items))]\<rparr> = Inr res \<and>
    response_text res = Inr summary \<and>
    answer_save_chat e \<lparr>chat_id = msg_chat_id msg, user_input = Some q, bot_response = summary,
                        timestamp = now e\<rparr> = None \<longrightarrow>
      chats (snd (on_websearch e msg q w)) =
        chats w @ [\<lparr>chat_id = msg_chat_id msg, user_input = Some q, bot_response = summary,
                    timestamp = now e\<rparr>] \<and>
      sent (snd (on_websearch e msg q w)) =
        sent w @
        [\<lparr>recipient = msg_chat_id msg,
          body = results_mark @ '' Top search results:\<newline>\<newline>'' @ searchResults items @
                 ''\<newline>\<newline>'' @ summary_mark @ '' Summary:\<newline>\<newline>'' @ summary,
          markup = None\<rparr>]) \<and>
   (answer_search e q = Inr (Some items) \<and>
    answer_generate e
      \<lparr>model = ''gemini-1.5-pro'',
       parts = [Text (Some (''Summarize this: '' @ searchResults items))]\<rparr> = Inr res \<and>
    summary = or_default (candidate_text res) ''No summary available.'' \<and>
    answer_save_chat e \<lparr>chat_id = msg_chat_id msg, user_input = Some q, bot_response = summary,
                        timestamp = now e\<rparr> = None \<longrightarrow>
      chats (snd (on_websearch_wh e msg q w)) =
        chats w @ [\<lparr>chat_id = msg_chat_id msg, user_input = Some q, bot_response = summary,
                    timestamp = now e\<rparr>] \<and>
      sent (snd (on_websearch_wh e msg q w)) =
        sent w @
        [\<lparr>recipient = msg_chat_id msg,
          body = results_mark_wh @ '' Search Results:\<newline>\<newline>'' @ searchResults items @
                 ''\<newline>\<newline>'' @ summary_mark_wh @ '' Summary:\<newline>'' @ summary,
          markup = None\<rparr>])"
  by (auto simp: on_websearch_def on_websearch_try_def on_websearch_wh_def on_websearch_try_wh_def
      store_defs service_defs Let_def)

theorem search_failures_witness:
  "sent (snd (on_websearch search_down (message_of (Some ''/websearch rust'')) ''rust''
                empty_world)) =
     [\<lparr>recipient = 42, body = ''Error fetching search results.'', markup = None\<rparr>] \<and>
   chats (snd (on_websearch search_down (message_of (Some ''/websearch rust'')) ''rust''
                 empty_world)) = [] \<and>
   requests (snd (on_websearch search_down (message_of (Some ''/websearch rust'')) ''rust''
                    empty_world)) = [Search ''rust''] \<and>
   sent (snd (on_websearch_wh model_down (message_of (Some ''/websearch rust'')) ''rust''
                empty_world)) =
     [\<lparr>recipient = 42, body = ''Error fetching search results.'', markup = None\<rparr>] \<and>
   chats (snd (on_websearch_wh model_down (message_of (Some ''/websearch rust'')) ''rust''
                 empty_world)) = [] \<and>
   requests (snd (on_websearch_wh model_down (message_of (Some ''/websearch rust'')) ''rust''
                    empty_world)) =
     [Search ''rust'',
      Generate \<lparr>model = ''gemini-1.5-pro'',
                parts = [Text (Some (''Summarize this: '' @ searchResults three_items))]\<rparr>]"
proof -
  let ?m = "message_of (Some ''/websearch rust'')"
  let ?rq = "\<lparr>model = ''gemini-1.5-pro'',
              parts = [Text (Some (''Summarize this: '' @ searchResults three_items))]\<rparr>"
  have a: "answer_search search_down ''rust'' = Inl SearchError"
    by (simp add: search_down_def)
  have b: "answer_search model_down ''rust'' = Inr (Some three_items) \<and>
           answer_generate model_down ?rq = Inl GenerationError"
    by (simp add: model_down_def all_up_def)
  have d: "msg_chat_id ?m = 42" "chats empty_world = []" "sent empty_world = []"
    "requests empty_world = []"
    by (simp_all add: message_of_def empty_world_def)
  from search_failures [where e = search_down and q = "''rust''" and err = SearchError
      and msg = ?m and w = empty_world] a d
  have 1: "sent (snd (on_websearch search_down ?m ''rust'' empty_world)) =
      [\<lparr>recipient = 42, body = ''Error fetching search results.'', markup = None\<rparr>] \<and>
    chats (snd (on_websearch search_down ?m ''rust'' empty_world)) = [] \<and>
    requests (snd (on_websearch search_down ?m ''rust'' empty_world)) = [Search ''rust'']"
    by simp
  from search_failures [where e = model_down and q = "''rust''" and err = GenerationError
      and msg = ?m and w = empty_world and items = three_items and rq = ?rq] b d
  have 2: "sent (snd (on_websearch_wh model_down ?m ''rust'' empty_world)) =
      [\<lparr>recipient = 42, body = ''Error fetching search results.'', markup = None\<rparr>] \<and>
    chats (snd (on_websearch_wh model_down ?m ''rust'' empty_world)) = [] \<and>
    requests (snd (on_websearch_wh model_down ?m ''rust'' empty_world)) = [Search ''rust'', Generate ?rq]"
    by simp
  from 1 2 show ?thesis by simp
qed

subsection \<open>The image callback\<close>






subsection \<open>Delivery: which callbacks answer an update\<close>

lemma on_start_sends:
  "\<exists>new. sent (snd (on_start e msg w)) = sent w @ new \<and> length new \<le> 2"
  by (auto simp: on_start_def store_defs Let_def split: split_all)

lemma on_start_wh_sends:
  "\<exists>new. sent (snd (on_start_wh e msg w)) = sent w @ new \<and> length new \<le> 2"
  by (auto simp: on_start_wh_def store_defs Let_def split: split_all)

lemma on_contact_sends:
  "\<exists>new. sent (snd (on_contact e msg w)) = sent w @ new \<and> length new \<le> 1"
  by (auto simp: on_contact_def store_defs Let_def split: split_all)

lemma on_contact_wh_sends:
  "\<exists>new. sent (snd (on_contact_wh e msg w)) = sent w @ new \<and> length new \<le> 1"
  by (auto simp: on_contact_wh_def store_defs Let_def split: split_all)

lemma on_help_sends: "\<exists>m. sent (snd (on_help e msg w)) = sent w @ [m]"
  by (simp add: on_help_def store_defs)

lemma on_message_skips:
  "\<not> truthy (msg_text msg) \<or> text_startsWith (msg_text msg) ''/start'' \<or>
   text_startsWith (msg_text msg) ''/websearch'' \<Longrightarrow> on_message e msg w = (None, w)"
  by (auto simp: on_message_def Let_def)

lemma on_message_sends:
  "truthy (msg_text msg) \<Longrightarrow> \<not> text_startsWith (msg_text msg) ''/start'' \<Longrightarrow>
   \<not> text_startsWith (msg_text msg) ''/websearch'' \<Longrightarrow>
   fst (on_message e msg w) = None \<and> (\<exists>m. sent (snd (on_message e msg w)) = sent w @ [m])"
  by (auto simp: on_message_def on_message_try_def store_defs service_defs Let_def
      split: split_all)

lemma on_message_wh_sends:
  "fst (on_message_wh e msg w) = None \<and> (\<exists>m. sent (snd (on_message_wh e msg w)) = sent w @ [m])"
  by (auto simp: on_message_wh_def on_message_try_wh_def store_defs service_defs Let_def
      split: split_all)

lemma on_websearch_sends:
  "fst (on_websearch e msg q w) = None \<and>
   (\<exists>m. sent (snd (on_websearch e msg q w)) = sent w @ [m])"
  by (auto simp: on_websearch_def on_websearch_try_def store_defs service_defs Let_def
      split: split_all)

lemma on_websearch_wh_sends:
  "fst (on_websearch_wh e msg q w) = None \<and>
   (\<exists>m. sent (snd (on_websearch_wh e msg q w)) = sent w @ [m])"
  by (auto simp: on_websearch_wh_def on_websearch_try_wh_def store_defs service_defs Let_def
      split: split_all)

lemma on_photo_sends:
  "msg_photo msg = Some sizes \<Longrightarrow> sizes \<noteq> [] \<Longrightarrow>
   fst (on_photo e msg w) = None \<and> (\<exists>m. sent (snd (on_photo e msg w)) = sent w @ [m])"
  by (auto simp: on_photo_def on_photo_try_def store_defs service_defs Let_def split: split_all)

lemma on_photo_wh_sends:
  "msg_photo msg = Some sizes \<Longrightarrow> sizes \<noteq> [] \<Longrightarrow>
   fst (on_photo_wh e msg w) = None \<and> (\<exists>m. sent (snd (on_photo_wh e msg w)) = sent w @ [m])"
  by (auto simp: on_photo_wh_def on_photo_try_wh_def store_defs service_defs Let_def
      split: split_all)

lemma on_photo_none:
  "msg_photo msg = None \<or> msg_photo msg = Some [] \<Longrightarrow>
   on_photo e msg w = (Some TypeError, w) \<and> on_photo_wh e msg w = (Some TypeError, w)"
  by (auto simp: on_photo_def on_photo_wh_def)

lemma one_is_at_most_one:
  "\<exists>m. xs = ys @ [m] \<Longrightarrow> \<exists>new. xs = ys @ new \<and> length new \<le> 1"
  by auto

lemma none_is_at_most_one: "\<exists>new. xs = xs @ new \<and> length new \<le> (1::nat)"
  by simp

lemma on_message_sends_le:
  "\<exists>new. sent (snd (on_message e msg w)) = sent w @ new \<and> length new \<le> 1"
proof (cases "truthy (msg_text msg) \<and> \<not> text_startsWith (msg_text msg) ''/start'' \<and>
       \<not> text_startsWith (msg_text msg) ''/websearch''")
  case True
  then show ?thesis using on_message_sends [of msg e w] by (intro one_is_at_most_one) simp
next
  case False
  then have "on_message e msg w = (None, w)" by (intro on_message_skips) blast
  then show ?thesis by simp
qed

lemma on_photo_sends_le:
  "(\<exists>new. sent (snd (on_photo e msg w)) = sent w @ new \<and> length new \<le> 1) \<and>
   (\<exists>new. sent (snd (on_photo_wh e msg w)) = sent w @ new \<and> length new \<le> 1)"
proof (cases "msg_photo msg = None \<or> msg_photo msg = Some []")
  case True
  then show ?thesis using on_photo_none [of msg e w] by simp
next
  case False
  then obtain sizes where s: "msg_photo msg = Some sizes" "sizes \<noteq> []" by auto
  show ?thesis
    using on_photo_sends [OF s, of e w] on_photo_wh_sends [OF s, of e w]
    by (intro conjI one_is_at_most_one) simp_all
qed

lemma run_sends:
  "(\<exists>new. sent (snd (run e msg cb w)) = sent w @ new \<and>
          length new \<le> (if cb = OnStart then 2 else 1)) \<and>
   (\<exists>new. sent (snd (run_wh e msg cb w)) = sent w @ new \<and>
          length new \<le> (if cb = OnStart then 2 else 1))"
proof (cases cb)
  case OnStart
  then show ?thesis using on_start_sends [of e msg w] on_start_wh_sends [of e msg w] by simp
next
  case OnContact
  then show ?thesis using on_contact_sends [of e msg w] on_contact_wh_sends [of e msg w] by simp
next
  case OnHelp
  then show ?thesis using on_help_sends [of e msg w, THEN one_is_at_most_one] by simp
next
  case OnMessage
  then show ?thesis
    using on_message_sends_le [of e msg w]
      on_message_wh_sends [of e msg w, THEN conjunct2, THEN one_is_at_most_one]
    by simp
next
  case (OnWebsearch q)
  then show ?thesis
    using on_websearch_sends [of e msg q w, THEN conjunct2, THEN one_is_at_most_one]
      on_websearch_wh_sends [of e msg q w, THEN conjunct2, THEN one_is_at_most_one]
    by simp
next
  case OnPhoto
  then show ?thesis using on_photo_sends_le [of e msg w] by simp
qed

lemma exec_websearch_sublist: "exec_websearch t = Some q \<Longrightarrow> sublist ''/websearch '' t"
proof (induction t)
  case Nil
  then show ?case by simp
next
  case (Cons c cs)
  show ?case
  proof (cases "startsWith (c # cs) ''/websearch ''")
    case True
    then have "prefix ''/websearch '' (c # cs)" by (simp only: startsWith_prefix)
    then show ?thesis by (rule prefix_imp_sublist)
  next
    case False
    with Cons.prems have "exec_websearch cs = Some q" by simp
    then have "sublist ''/websearch '' cs" by (rule Cons.IH)
    then show ?thesis by (simp only: sublist_Cons_right) simp
  qed
qed

lemma sublist_websearch: "sublist ''/websearch '' t \<Longrightarrow> sublist ''/websearch'' t"
proof -
  assume "sublist ''/websearch '' t"
  then obtain ps ss where "t = ps @ ''/websearch '' @ ss" by (auto simp: sublist_def)
  then have "t = ps @ ''/websearch'' @ ('' '' @ ss)" by simp
  then show ?thesis unfolding sublist_def by blast
qed

lemma no_websearch: "\<not> sublist ''/websearch'' t \<Longrightarrow> exec_websearch t = None"
  using exec_websearch_sublist sublist_websearch by (cases "exec_websearch t") auto

lemma startsWith_sublist: "startsWith t n \<Longrightarrow> sublist n t"
  by (simp add: startsWith_prefix prefix_imp_sublist)

lemma distinct_callbacks: "distinct (callbacks msg) \<and> distinct (callbacks_wh msg)"
  by (auto simp: callbacks_def callbacks_wh_def emitted_def text_callbacks_def
      text_callbacks_wh_def split: option.splits)

lemma run_all_skip:
  "f a w = (None, w) \<Longrightarrow> fst (f b w) = None \<Longrightarrow> run_all f [a, b] w = ([], snd (f b w))"
  by (cases "f b w") simp

lemma run_all_single: "fst (f a w) = None \<Longrightarrow> run_all f [a] w = ([], snd (f a w))"
  by (cases "f a w") simp

lemma emitted_text: "truthy (msg_text msg) \<Longrightarrow> emitted msg = [OnMessage]"
  by (simp add: emitted_def message_type_def)

lemma contact_route:
  "\<not> truthy (msg_text msg) \<and> msg_contact msg = Some p \<and>
   answer_updateOne e (msg_chat_id msg) p = None \<longrightarrow>
     processUpdate e msg w = ([], snd (on_contact e msg w)) \<and>
     (\<exists>m. sent (snd (processUpdate e msg w)) = sent w @ [m])"
proof (intro impI, elim conjE)
  assume a: "\<not> truthy (msg_text msg)" "msg_contact msg = Some p"
    "answer_updateOne e (msg_chat_id msg) p = None"
  have c: "callbacks msg = [OnMessage, OnContact]"
    using a by (auto simp: callbacks_def emitted_def message_type_def text_callbacks_def
        truthy_def split: option.splits)
  have m: "run e msg OnMessage w = (None, w)"
    using a(1) on_message_skips [of msg e w] by simp
  have k: "fst (run e msg OnContact w) = None \<and>
           (\<exists>m. sent (snd (on_contact e msg w)) = sent w @ [m])"
    using a by (simp add: on_contact_def store_defs Let_def)
  have "run_all (run e msg) [OnMessage, OnContact] w = ([], snd (run e msg OnContact w))"
    by (rule run_all_skip [of "run e msg" OnMessage w, OF m]) (rule k [THEN conjunct1])
  then have "processUpdate e msg w = ([], snd (on_contact e msg w))"
    by (simp only: processUpdate_def c run.simps)
  with k show "processUpdate e msg w = ([], snd (on_contact e msg w)) \<and>
     (\<exists>m. sent (snd (processUpdate e msg w)) = sent w @ [m])" by simp
qed

lemma photo_route:
  "\<not> truthy (msg_text msg) \<and> msg_contact msg = None \<and> msg_photo msg = Some sizes \<and>
   sizes \<noteq> [] \<longrightarrow>
     processUpdate e msg w = ([], snd (on_photo e msg w)) \<and>
     (\<exists>m. sent (snd (processUpdate e msg w)) = sent w @ [m])"
proof (intro impI, elim conjE)
  assume a: "\<not> truthy (msg_text msg)" "msg_contact msg = None"
    "msg_photo msg = Some sizes" "sizes \<noteq> []"
  have c: "callbacks msg = [OnMessage, OnPhoto]"
    using a by (auto simp: callbacks_def emitted_def message_type_def text_callbacks_def
        truthy_def split: option.splits)
  have m: "run e msg OnMessage w = (None, w)"
    using a(1) on_message_skips [of msg e w] by simp
  have k: "fst (run e msg OnPhoto w) = None \<and>
           (\<exists>m. sent (snd (on_photo e msg w)) = sent w @ [m])"
    using on_photo_sends [OF a(3,4), of e w] by simp
  have "run_all (run e msg) [OnMessage, OnPhoto] w = ([], snd (run e msg OnPhoto w))"
    by (rule run_all_skip [of "run e msg" OnMessage w, OF m]) (rule k [THEN conjunct1])
  then have "processUpdate e msg w = ([], snd (on_photo e msg w))"
    by (simp only: processUpdate_def c run.simps)
  with k show "processUpdate e msg w = ([], snd (on_photo e msg w)) \<and>
     (\<exists>m. sent (snd (processUpdate e msg w)) = sent w @ [m])" by simp
qed

lemma ignored_route:
  "\<not> truthy (msg_text msg) \<and> msg_contact msg = None \<and> msg_photo msg = None \<longrightarrow>
     processUpdate e msg w = ([], w)"
proof (intro impI, elim conjE)
  assume a: "\<not> truthy (msg_text msg)" "msg_contact msg = None" "msg_photo msg = None"
  have c: "callbacks msg = [OnMessage]"
    using a by (auto simp: callbacks_def emitted_def message_type_def text_callbacks_def
        truthy_def split: option.splits)
  have m: "on_message e msg w = (None, w)"
    using a(1) on_message_skips [of msg e w] by simp
  show "processUpdate e msg w = ([], w)"
    using c m by (simp add: processUpdate_def)
qed

lemma chat_route:
  "msg_text msg = Some t \<and> t \<noteq> [] \<and> \<not> sublist ''/start'' t \<and> \<not> sublist ''/help'' t \<and>
   \<not> sublist ''/websearch'' t \<longrightarrow>
     processUpdate e msg w = ([], snd (on_message e msg w)) \<and>
     (\<exists>m. sent (snd (processUpdate e msg w)) = sent w @ [m])"
proof (intro impI, elim conjE)
  assume a: "msg_text msg = Some t" "t \<noteq> []" "\<not> sublist ''/start'' t"
    "\<not> sublist ''/help'' t" "\<not> sublist ''/websearch'' t"
  have t: "truthy (msg_text msg)"
    using a by (simp add: truthy_def)
  have c: "callbacks msg = [OnMessage]"
    using a emitted_text [OF t] no_websearch [of t]
    by (simp add: callbacks_def text_callbacks_def matches_literal_sublist)
  have "\<not> startsWith t ''/start'' \<and> \<not> startsWith t ''/websearch''"
    using a startsWith_sublist by blast
  then have g: "\<not> text_startsWith (msg_text msg) ''/start''"
    "\<not> text_startsWith (msg_text msg) ''/websearch''"
    using a by (simp_all add: text_startsWith_def)
  have k: "fst (run e msg OnMessage w) = None \<and>
           (\<exists>m. sent (snd (on_message e msg w)) = sent w @ [m])"
    using on_message_sends [OF t g, of e w] by simp
  have "run_all (run e msg) [OnMessage] w = ([], snd (run e msg OnMessage w))"
    by (rule run_all_single [of "run e msg"]) (rule k [THEN conjunct1])
  then have "processUpdate e msg w = ([], snd (on_message e msg w))"
    by (simp only: processUpdate_def c run.simps)
  with k show "processUpdate e msg w = ([], snd (on_message e msg w)) \<and>
     (\<exists>m. sent (snd (processUpdate e msg w)) = sent w @ [m])" by simp
qed

lemma search_route:
  "msg_text msg = Some t \<and> startsWith t ''/websearch'' \<and> exec_websearch t = Some q \<and>
   \<not> sublist ''/start'' t \<and> \<not> sublist ''/help'' t \<longrightarrow>
     processUpdate e msg w = ([], snd (on_websearch e msg q w)) \<and>
     (\<exists>m. sent (snd (processUpdate e msg w)) = sent w @ [m])"
proof (intro impI, elim conjE)
  assume a: "msg_text msg = Some t" "startsWith t ''/websearch''" "exec_websearch t = Some q"
    "\<not> sublist ''/start'' t" "\<not> sublist ''/help'' t"
  have ne: "t \<noteq> []"
    using a(3) by auto
  then have t: "truthy (msg_text msg)"
    using a by (simp add: truthy_def)
  have c: "callbacks msg = [OnMessage, OnWebsearch q]"
    using a ne emitted_text [OF t]
    by (simp add: callbacks_def text_callbacks_def matches_literal_sublist)
  have "text_startsWith (msg_text msg) ''/websearch''"
    using a ne by (simp add: text_startsWith_def)
  then have m: "run e msg OnMessage w = (None, w)"
    using on_message_skips [of msg e w] by simp
  have k: "fst (run e msg (OnWebsearch q) w) = None \<and>
           (\<exists>m. sent (snd (on_websearch e msg q w)) = sent w @ [m])"
    using on_websearch_sends [of e msg q w] by simp
  have "run_all (run e msg) [OnMessage, (OnWebsearch q)] w =
          ([], snd (run e msg (OnWebsearch q) w))"
    by (rule run_all_skip [of "run e msg" OnMessage w, OF m]) (rule k [THEN conjunct1])
  then have "processUpdate e msg w = ([], snd (on_websearch e msg q w))"
    by (simp only: processUpdate_def c run.simps)
  with k show "processUpdate e msg w = ([], snd (on_websearch e msg q w)) \<and>
     (\<exists>m. sent (snd (processUpdate e msg w)) = sent w @ [m])" by simp
qed

lemma start_route:
  "msg_text msg = Some t \<and> startsWith t ''/start'' \<and> \<not> sublist ''/help'' t \<and>
   exec_websearch t = None \<longrightarrow>
     snd (processUpdate e msg w) = snd (on_start e msg w)"
proof (intro impI, elim conjE)
  assume a: "msg_text msg = Some t" "startsWith t ''/start''" "\<not> sublist ''/help'' t"
    "exec_websearch t = None"
  have ne: "t \<noteq> []"
    using a(2) by (auto simp: startsWith_def)
  then have t: "truthy (msg_text msg)"
    using a by (simp add: truthy_def)
  have c: "callbacks msg = [OnMessage, OnStart]"
    using a ne emitted_text [OF t] startsWith_sublist [OF a(2)]
    by (simp add: callbacks_def text_callbacks_def matches_literal_sublist)
  have "text_startsWith (msg_text msg) ''/start''"
    using a ne by (simp add: text_startsWith_def)
  then have m: "on_message e msg w = (None, w)"
    using on_message_skips [of msg e w] by simp
  show "snd (processUpdate e msg w) = snd (on_start e msg w)"
    using c m by (simp add: processUpdate_def split: prod.splits)
qed

text \<open>
  In the polling variant a text that contains \<open>/help\<close> reaches the help callback and,
  unless it begins with \<open>/start\<close> or \<open>/websearch\<close>, the chat callback as well, since
  the chat callback does not test for it; in the webhook variant the chat callback tests
  nothing, so \<open>/start\<close> is answered by it and by the registration callback.
\<close>

lemma help_answered_twice:
  "callbacks (message_of (Some ''/help'')) = [OnMessage, OnHelp] \<and>
   length (sent (snd (processUpdate all_up (message_of (Some ''/help'')) empty_world))) = 2 \<and>
   callbacks_wh (message_of (Some ''/start'')) = [OnMessage, OnStart] \<and>
   length (sent (snd (processUpdate_wh all_up (message_of (Some ''/start'')) empty_world))) = 3"
  by code_simp

text \<open>
  Claim C1, as stated, says that every inbound update gets exactly one outbound message.
  A first \<open>/start\<close> is answered with two messages, the welcome and the request for the
  contact; \<open>/websearch\<close> without an argument is answered by no callback at all.
\<close>

theorem one_reply_counterexample:
  "length (sent (snd (processUpdate all_up (message_of (Some ''/start'')) empty_world))) = 2 \<and>
   processUpdate all_up (message_of (Some ''/websearch'')) empty_world = ([], empty_world)"
  by code_simp

text \<open>
  Claim C1, amended. For every inbound update, in both variants, each registered callback
  is called at most once, and one run of a callback sends at most one message, except the
  registration callback, which sends at most two (the welcome and the request for the
  contact). In the polling variant the chat callback does nothing when the text is missing
  or empty or begins with \<open>/start\<close> or \<open>/websearch\<close>, and so:
  a text-less contact update is answered by the contact callback alone, with one message
  (when the store answers the update);
  a text-less photo update without contact is answered by the image callback alone, with
  one message;
  an update with neither text, contact nor photo is answered by no callback;
  a non-empty text that contains none of \<open>/start\<close>, \<open>/help\<close> and \<open>/websearch\<close> is
  answered by the chat callback alone, with one message;
  a text that begins with \<open>/websearch\<close>, matches the search trigger and contains neither
  \<open>/start\<close> nor \<open>/help\<close> is answered by the search callback alone, with one message;
  a text that begins with \<open>/start\<close>, contains no \<open>/help\<close> and does not match the
  search trigger is answered by the registration callback alone.
\<close>

theorem dispatch_routes:
  "distinct (callbacks msg) \<and> distinct (callbacks_wh msg) \<and>
   (\<forall>cb. (\<exists>new. sent (snd (run e msg cb w)) = sent w @ new \<and>
                length new \<le> (if cb = OnStart then 2 else 1)) \<and>
         (\<exists>new. sent (snd (run_wh e msg cb w)) = sent w @ new \<and>
                length new \<le> (if cb = OnStart then 2 else 1))) \<and>
   (\<not> truthy (msg_text msg) \<or> text_startsWith (msg_text msg) ''/start'' \<or>
    text_startsWith (msg_text msg) ''/websearch'' \<longrightarrow> on_message e msg w = (None, w)) \<and>
   (\<not> truthy (msg_text msg) \<and> msg_contact msg = Some p \<and>
    answer_updateOne e (msg_chat_id msg) p = None \<longrightarrow>
      processUpdate e msg w = ([], snd (on_contact e msg w)) \<and>
      (\<exists>m. sent (snd (processUpdate e msg w)) = sent w @ [m])) \<and>
   (\<not> truthy (msg_text msg) \<and> msg_contact msg = None \<and> msg_photo msg = Some sizes \<and>
    sizes \<noteq> [] \<longrightarrow>
      processUpdate e msg w = ([], snd (on_photo e msg w)) \<and>
      (\<exists>m. sent (snd (processUpdate e msg w)) = sent w @ [m])) \<and>
   (\<not> truthy (msg_text msg) \<and> msg_contact msg = None \<and> msg_photo msg = None \<longrightarrow>
      processUpdate e msg w = ([], w)) \<and>
   (msg_text msg = Some t \<and> t \<noteq> [] \<and> \<not> sublist ''/start'' t \<and> \<not> sublist ''/help'' t \<and>
    \<not> sublist ''/websearch'' t \<longrightarrow>
      processUpdate e msg w = ([], snd (on_message e msg w)) \<and>
      (\<exists>m. sent (snd (processUpdate e msg w)) = sent w @ [m])) \<and>
   (msg_text msg = Some t \<and> startsWith t ''/websearch'' \<and> exec_websearch t = Some q \<and>
    \<not> sublist ''/start'' t \<and> \<not> sublist ''/help'' t \<longrightarrow>
      processUpdate e msg w = ([], snd (on_websearch e msg q w)) \<and>
      (\<exists>m. sent (snd (processUpdate e msg w)) = sent w @ [m])) \<and>
   (msg_text msg = Some t \<and> startsWith t ''/start'' \<and> \<not> sublist ''/help'' t \<and>
    exec_websearch t = None \<longrightarrow>
      snd (processUpdate e msg w) = snd (on_start e msg w))"
proof -
  have skips: "\<not> truthy (msg_text msg) \<or> text_startsWith (msg_text msg) ''/start'' \<or>
    text_startsWith (msg_text msg) ''/websearch'' \<longrightarrow> on_message e msg w = (None, w)"
    using on_message_skips [of msg e w] by (rule impI)
  have bound: "\<forall>cb. (\<exists>new. sent (snd (run e msg cb w)) = sent w @ new \<and>
                length new \<le> (if cb = OnStart then 2 else 1)) \<and>
         (\<exists>new. sent (snd (run_wh e msg cb w)) = sent w @ new \<and>
                length new \<le> (if cb = OnStart then 2 else 1))"
    by (intro allI run_sends)
  show ?thesis
    by (intro conjI distinct_callbacks [THEN conjunct1] distinct_callbacks [THEN conjunct2] bound
        skips contact_route photo_route ignored_route chat_route search_route start_route)
qed

theorem dispatch_routes_witness:
  "length (sent (snd (processUpdate all_up photo_message empty_world))) = 1 \<and>
   length (sent (snd (processUpdate all_up contact_message ana_world))) = 1 \<and>
   length (sent (snd (processUpdate all_up (message_of (Some ''hi'')) empty_world))) = 1 \<and>
   length (sent (snd (processUpdate all_up (message_of (Some ''/websearch rust ownership''))
                        empty_world))) = 1 \<and>
   snd (processUpdate all_up (message_of (Some ''/start'')) empty_world) =
     snd (on_start all_up (message_of (Some ''/start'')) empty_world) \<and>
   processUpdate all_up (message_of None) empty_world = ([], empty_world)"
proof -
  have photo: "\<not> truthy (msg_text photo_message) \<and> msg_contact photo_message = None \<and>
      msg_photo photo_message = Some [''small'', ''large''] \<and>
      [''small'', ''large''] \<noteq> ([] :: string list)"
    by (simp add: photo_message_def message_of_def truthy_def)
  have contact: "\<not> truthy (msg_text contact_message) \<and>
      msg_contact contact_message = Some ''+4912345'' \<and>
      answer_updateOne all_up (msg_chat_id contact_message) ''+4912345'' = None"
    by (simp add: contact_message_def message_of_def truthy_def all_up_def)
  have chat: "msg_text (message_of (Some ''hi'')) = Some ''hi'' \<and> ''hi'' \<noteq> [] \<and>
      \<not> sublist ''/start'' ''hi'' \<and> \<not> sublist ''/help'' ''hi'' \<and> \<not> sublist ''/websearch'' ''hi''"
    by (simp add: message_of_def matches_literal_sublist [symmetric] startsWith_def)
  have search: "msg_text (message_of (Some ''/websearch rust ownership'')) =
        Some ''/websearch rust ownership'' \<and>
      startsWith ''/websearch rust ownership'' ''/websearch'' \<and>
      exec_websearch ''/websearch rust ownership'' = Some ''rust ownership'' \<and>
      \<not> sublist ''/start'' ''/websearch rust ownership'' \<and>
      \<not> sublist ''/help'' ''/websearch rust ownership''"
    by (simp add: message_of_def matches_literal_sublist [symmetric] startsWith_def
        line_terminator_def)
  have start: "msg_text (message_of (Some ''/start'')) = Some ''/start'' \<and>
      startsWith ''/start'' ''/start'' \<and> \<not> sublist ''/help'' ''/start'' \<and>
      exec_websearch ''/start'' = None"
    by (simp add: message_of_def matches_literal_sublist [symmetric] startsWith_def)
  have none: "\<not> truthy (msg_text (message_of None)) \<and> msg_contact (message_of None) = None \<and>
      msg_photo (message_of None) = None"
    by (simp add: message_of_def truthy_def)
  have e: "sent empty_world = []" "sent ana_world = []"
    by (simp_all add: empty_world_def ana_world_def)
  from dispatch_routes [of photo_message all_up empty_world _ "[''small'', ''large'']"] photo
  have "\<exists>m. sent (snd (processUpdate all_up photo_message empty_world)) = sent empty_world @ [m]"
    by blast
  then have 1: "length (sent (snd (processUpdate all_up photo_message empty_world))) = 1"
    using e by auto
  from dispatch_routes [of contact_message all_up ana_world "''+4912345''"] contact
  have "\<exists>m. sent (snd (processUpdate all_up contact_message ana_world)) = sent ana_world @ [m]"
    by blast
  then have 2: "length (sent (snd (processUpdate all_up contact_message ana_world))) = 1"
    using e by auto
  from dispatch_routes [of "message_of (Some ''hi'')" all_up empty_world _ _ "''hi''"] chat
  have "\<exists>m. sent (snd (processUpdate all_up (message_of (Some ''hi'')) empty_world)) =
             sent empty_world @ [m]"
    by blast
  then have 3: "length (sent (snd (processUpdate all_up (message_of (Some ''hi'')) empty_world))) = 1"
    using e by auto
  from dispatch_routes [of "message_of (Some ''/websearch rust ownership'')" all_up empty_world
      _ _ "''/websearch rust ownership''" "''rust ownership''"] search
  have "\<exists>m. sent (snd (processUpdate all_up (message_of (Some ''/websearch rust ownership''))
                        empty_world)) = sent empty_world @ [m]"
    by blast
  then have 4: "length (sent (snd (processUpdate all_up
      (message_of (Some ''/websearch rust ownership'')) empty_world))) = 1"
    using e by auto
  from dispatch_routes [of "message_of (Some ''/start'')" all_up empty_world _ _ "''/start''"] start
  have 5: "snd (processUpdate all_up (message_of (Some ''/start'')) empty_world) =
      snd (on_start all_up (message_of (Some ''/start'')) empty_world)"
    by blast
  from dispatch_routes [of "message_of None" all_up empty_world] none
  have 6: "processUpdate all_up (message_of None) empty_world = ([], empty_world)"
    by blast
  from 1 2 3 4 5 6 show ?thesis by simp
qed

end
